theory Spec2Isabelle
  imports
    Complex_Main
    "HOL-Library.Char_ord"
    "HOL-Library.List_Lexorder"
    "HOL-Library.Product_Lexorder"
    "HOL-Library.Multiset"
begin

section \<open>Tables of the validation pipeline\<close>

text \<open>
  The data frames of \<^verbatim>\<open>process_validation\<close> are lists of records, one record per
  row, in row order. A nullable column is an \<open>option\<close>: \<open>None\<close> stands for Python's
  \<^verbatim>\<open>None\<close> and for pandas' NaN. Strings are compared as Python compares them, code
  point by code point, which on \<open>string\<close> is the lexicographic order of
  \<open>List_Lexorder\<close> over the character order of \<open>Char_ord\<close>. A test value
  is the exact decimal that \<^verbatim>\<open>float(m.group())\<close> rounds to the nearest double.
\<close>

text \<open>Columns that every table from \<^verbatim>\<open>extracted_df3\<close> on carries.\<close>

record base_row =
  filename :: string
  json_values :: string
  tests :: "(string \<times> rat option) list"
  product_name :: "string option"
  manufacture_date :: "string option"
  expiry_date :: "string option"

text \<open>A row of \<^verbatim>\<open>rm_final\<close> (lines 568-576).\<close>

record frow = base_row +
  rm_id_final :: "string option"
  rm_name_final :: "string option"
  name_similarity_final :: "int option"
  max_name_similarity :: int
  coa_sufficient_content :: "int option"

text \<open>A row of the returned \<^verbatim>\<open>rm_clean\<close> (lines 592-612).\<close>

record out_row =
  pr_codenum :: "string option"
  out_rm_name_final :: "string option"
  out_tests :: "(string \<times> rat option) list"
  out_manufacture_date :: "string option"
  out_expiry_date :: "string option"

section \<open>Strings and the regular expressions of the module\<close>

text \<open>
  A character is read as the code point of its number, 0 to 255, and the classes are
  those of Python on these code points: \<^verbatim>\<open>\d\<close> is a decimal digit; \<^verbatim>\<open>\w\<close> is an
  alphanumeric character or the underscore; \<^verbatim>\<open>\s\<close> and \<^verbatim>\<open>str.strip\<close> take the codes
  9 to 13, 28 to 32, 133 and 160 as white space; \<^verbatim>\<open>str.lower\<close> adds 32 to the codes
  of the upper-case letters. Each regular expression of the module is written out as
  the function that \<^verbatim>\<open>re.search\<close> (leftmost match, greedy quantifiers) computes for
  it.
\<close>

definition is_digit :: "char \<Rightarrow> bool" where
  "is_digit c \<longleftrightarrow> 48 \<le> (of_char c :: nat) \<and> (of_char c :: nat) \<le> 57"

definition is_upper :: "char \<Rightarrow> bool" where
  "is_upper c \<longleftrightarrow> 65 \<le> (of_char c :: nat) \<and> (of_char c :: nat) \<le> 90"

definition is_lower :: "char \<Rightarrow> bool" where
  "is_lower c \<longleftrightarrow> 97 \<le> (of_char c :: nat) \<and> (of_char c :: nat) \<le> 122"

text \<open>The code points below 256 for which \<^verbatim>\<open>str.isalnum\<close> holds, and the underscore.\<close>

definition is_word :: "char \<Rightarrow> bool" where
  "is_word c \<longleftrightarrow>
     (let n = (of_char c :: nat)
      in (48 \<le> n \<and> n \<le> 57) \<or> (65 \<le> n \<and> n \<le> 90) \<or> n = 95 \<or> (97 \<le> n \<and> n \<le> 122) \<or>
         n = 170 \<or> n = 178 \<or> n = 179 \<or> n = 181 \<or> n = 185 \<or> n = 186 \<or>
         (188 \<le> n \<and> n \<le> 190) \<or> (192 \<le> n \<and> n \<le> 214) \<or> (216 \<le> n \<and> n \<le> 246) \<or>
         (248 \<le> n \<and> n \<le> 255))"

definition is_space :: "char \<Rightarrow> bool" where
  "is_space c \<longleftrightarrow>
     (let n = (of_char c :: nat)
      in (9 \<le> n \<and> n \<le> 13) \<or> (28 \<le> n \<and> n \<le> 32) \<or> n = 133 \<or> n = 160)"

definition lower_char :: "char \<Rightarrow> char" where
  "lower_char c =
     (let n = (of_char c :: nat)
      in if (65 \<le> n \<and> n \<le> 90) \<or> (192 \<le> n \<and> n \<le> 214) \<or> (216 \<le> n \<and> n \<le> 222)
         then char_of (n + 32) else c)"

definition lower :: "string \<Rightarrow> string" where
  "lower s = map lower_char s"

definition strip :: "string \<Rightarrow> string" where
  "strip s = rev (dropWhile is_space (rev (dropWhile is_space s)))"

text \<open>\<^verbatim>\<open>re.sub(r'\W+', '', s)\<close> (lines 132, 385, 440-446).\<close>

definition strip_non_word :: "string \<Rightarrow> string" where
  "strip_non_word s = filter is_word s"

text \<open>
  \<^verbatim>\<open>re.search(r'\b(w1|w2|...)\b', s)\<close> for alternatives that are literal words, each
  beginning and ending with a word character: some alternative occurs in \<open>s\<close> with no
  word character right before it and none right after it. The flag \<open>prev\<close> says
  whether the character before the current position is a word character.
\<close>

fun search_words :: "bool \<Rightarrow> string list \<Rightarrow> string \<Rightarrow> bool" where
  "search_words prev alts [] = False"
| "search_words prev alts (c # cs) =
     ((\<not> prev \<and>
       list_ex (\<lambda>w. take (length w) (c # cs) = w \<and>
                    (case drop (length w) (c # cs) of [] \<Rightarrow> True | d # _ \<Rightarrow> \<not> is_word d)) alts)
      \<or> search_words (is_word c) alts cs)"

definition re_search_words :: "string list \<Rightarrow> string \<Rightarrow> bool" where
  "re_search_words alts s = search_words False alts s"

text \<open>
  The match of \<^verbatim>\<open>[\d]*\.?\d+\<close> that starts at the head of \<open>s\<close>: the longest run of
  digits, then a point and the digits after it when at least one digit follows the
  point; without such a fraction the run of digits itself, which must not be empty.
\<close>

definition number_at :: "string \<Rightarrow> string option" where
  "number_at s =
     (let ds = takeWhile is_digit s; rest = dropWhile is_digit s
      in case rest of
           c # r \<Rightarrow>
             if c = CHR ''.'' \<and> takeWhile is_digit r \<noteq> [] then Some (ds @ c # takeWhile is_digit r)
             else if ds = [] then None else Some ds
         | [] \<Rightarrow> if ds = [] then None else Some ds)"

text \<open>\<^verbatim>\<open>re.search(r'[\d]*\.?\d+', s)\<close> (lines 151, 156): the match at the leftmost position.\<close>

fun search_number :: "string \<Rightarrow> string option" where
  "search_number [] = None"
| "search_number (c # cs) =
     (case number_at (c # cs) of Some m \<Rightarrow> Some m | None \<Rightarrow> search_number cs)"

text \<open>
  \<^verbatim>\<open>re.search(r'[\d]*\.?\d+(?=\s*cfu)', s, re.IGNORECASE)\<close> (line 177). At one position
  only the longest number can be followed by white space and \<open>cfu\<close>: every shorter
  match ends before a digit or before the point.
\<close>

definition followed_by_cfu :: "string \<Rightarrow> bool" where
  "followed_by_cfu s \<longleftrightarrow> take 3 (lower (dropWhile is_space s)) = ''cfu''"

fun search_number_cfu :: "string \<Rightarrow> string option" where
  "search_number_cfu [] = None"
| "search_number_cfu (c # cs) =
     (case number_at (c # cs) of
        Some m \<Rightarrow> if followed_by_cfu (drop (length m) (c # cs)) then Some m else search_number_cfu cs
      | None \<Rightarrow> search_number_cfu cs)"

text \<open>
  \<^verbatim>\<open>float(m.group())\<close> on a match of the number pattern, as the exact decimal value:
  the digits before the point plus the digits after it scaled by their count.
\<close>

definition digits_value :: "string \<Rightarrow> nat" where
  "digits_value ds = foldl (\<lambda>n c. 10 * n + (of_char c - 48)) 0 ds"

definition float_of :: "string \<Rightarrow> rat" where
  "float_of m =
     (let ip = takeWhile (\<lambda>c. c \<noteq> CHR ''.'') m; fp = drop 1 (dropWhile (\<lambda>c. c \<noteq> CHR ''.'') m)
      in of_nat (digits_value ip) + of_nat (digits_value fp) / 10 ^ length fp)"

text \<open>\<^verbatim>\<open>clean_text\<close> (lines 121-127).\<close>

definition clean_text :: "string option \<Rightarrow> string" where
  "clean_text t =
     (case t of None \<Rightarrow> []
      | Some s \<Rightarrow> strip (filter (\<lambda>c. is_lower c \<or> is_digit c \<or> is_space c) (lower s)))"

section \<open>The extraction envelope\<close>

text \<open>
  The value that \<^verbatim>\<open>json.loads\<close> returns for a cell of the column \<^verbatim>\<open>json_values\<close>: the
  JSON object that the extraction prompt asks for, restricted to the keys the module
  reads. A text field of a test entry is a string or JSON null (the prompt asks for null
  when a value is not found); a key that is absent is read with the default \<^verbatim>\<open>''\<close>
  and is represented by \<open>JStr []\<close>. The general-info fields and the score are strings
  and an integer, or null; an absent key, a null value and an absent or null
  \<^verbatim>\<open>general_info\<close> all end as \<open>None\<close> in the columns. A lot field is absent or null, one
  string, or a list of strings and nulls.
\<close>

datatype exn = TypeError | AttributeError | KeyError

datatype jtext = JNull | JStr string

record test_entry =
  test :: jtext
  limit :: jtext
  result :: jtext

datatype lot_value = LotNone | LotStr string | LotList "string option list"

record envelope =
  env_lot_number :: lot_value
  env_lot_numbers :: lot_value
  env_product_name :: "string option"
  env_manufacture_date :: "string option"
  env_expiry_date :: "string option"
  env_test_results :: "test_entry list"
  env_coa_sufficient_content :: "int option"

text \<open>
  A parsed cell is a dictionary or some other Python value (\<^verbatim>\<open>None\<close>, a list, a number,
  a string), on which \<^verbatim>\<open>.get\<close> raises \<^verbatim>\<open>AttributeError\<close>.
\<close>

datatype pyval = PyDict envelope | PyOther

text \<open>
  The library functions the module calls: \<^verbatim>\<open>json.loads\<close> and
  \<^verbatim>\<open>ast.literal_eval\<close> (\<open>None\<close> when they raise) and \<^verbatim>\<open>fuzz.token_set_ratio\<close>,
  which returns an integer from 0 to 100.
\<close>

record ext =
  json_loads :: "string \<Rightarrow> pyval option"
  literal_eval :: "string \<Rightarrow> pyval option"
  token_set_ratio :: "string \<Rightarrow> string \<Rightarrow> nat"

section \<open>Test-result extraction (lines 45-64, 140-194)\<close>

datatype chem_key =
  arsenic_ppm | cadmium_ppm | chromium_ppm | lead_ppm | mercury_ppm | total_plate_count | yeast_and_mold

datatype micro_key = e_coli | salmonella | staphylococcus_aureus

text \<open>The alternatives of each pattern, \<^verbatim>\<open>ars(?:enic)?\<close> written out as its two words.\<close>

fun CHEM_PATTERNS :: "chem_key \<Rightarrow> string list" where
  "CHEM_PATTERNS arsenic_ppm = [''ars'', ''arsenic'', ''as ppm'', ''as mg'', ''as content'']"
| "CHEM_PATTERNS cadmium_ppm = [''cadmium'', ''cd'']"
| "CHEM_PATTERNS chromium_ppm = [''chromium'']"
| "CHEM_PATTERNS lead_ppm = [''lead'', ''pb'']"
| "CHEM_PATTERNS mercury_ppm = [''mercury'', ''hg'', ''mecury'']"
| "CHEM_PATTERNS total_plate_count =
     [''plate'', ''tpc'', ''aerobic count'', ''total aerobic'', ''total count'']"
| "CHEM_PATTERNS yeast_and_mold =
     [''yeast'', ''yeaste'', ''yeasts'', ''mold'', ''molds'', ''mould'', ''moulds'']"

fun MICRO_PATTERNS :: "micro_key \<Rightarrow> string list" where
  "MICRO_PATTERNS e_coli = [''coli'']"
| "MICRO_PATTERNS salmonella = [''salmonella'']"
| "MICRO_PATTERNS staphylococcus_aureus = [''aureus'', ''staph'', ''staphylococcus'']"

text \<open>
  \<^verbatim>\<open>COMPILED_CHEM[key].search(s)\<close> and \<^verbatim>\<open>COMPILED_MICRO[key].search(s)\<close>: the patterns are
  compiled with \<^verbatim>\<open>re.IGNORECASE\<close>, which on ASCII is a search in the lower-cased string.
\<close>

definition COMPILED_CHEM :: "chem_key \<Rightarrow> string \<Rightarrow> bool" where
  "COMPILED_CHEM key s = re_search_words (CHEM_PATTERNS key) (lower s)"

definition COMPILED_MICRO :: "micro_key \<Rightarrow> string \<Rightarrow> bool" where
  "COMPILED_MICRO key s = re_search_words (MICRO_PATTERNS key) (lower s)"

definition negative_marker :: "string \<Rightarrow> bool" where
  "negative_marker s =
     re_search_words [''not detected'', ''conform'', ''conforms'', ''negative'', ''absent'', ''none''] s"

text \<open>
  \<^verbatim>\<open>re.search\<close> raises \<^verbatim>\<open>TypeError\<close> when its subject is \<^verbatim>\<open>None\<close>. The generator
  of lines 142-143 tests the entries in order, so a null label before the first
  matching entry raises.
\<close>

fun first_match :: "(string \<Rightarrow> bool) \<Rightarrow> test_entry list \<Rightarrow> exn + test_entry option" where
  "first_match p [] = Inr None"
| "first_match p (item # items) =
     (case test item of
        JNull \<Rightarrow> Inl TypeError
      | JStr s \<Rightarrow> if p s then Inr (Some item) else first_match p items)"

definition extract_chem_info :: "envelope \<Rightarrow> chem_key \<Rightarrow> exn + rat option" where
  "extract_chem_info data key =
     (case first_match (COMPILED_CHEM key) (env_test_results data) of
        Inl e \<Rightarrow> Inl e
      | Inr None \<Rightarrow> Inr None
      | Inr (Some info) \<Rightarrow>
          (case result info of
             JNull \<Rightarrow> Inl TypeError
           | JStr res \<Rightarrow>
               (case search_number res of
                  Some m \<Rightarrow> Inr (Some (float_of m))
                | None \<Rightarrow>
                    (case limit info of
                       JNull \<Rightarrow> Inl TypeError
                     | JStr lmt \<Rightarrow>
                         (case search_number lmt of
                            Some m \<Rightarrow> Inr (Some (float_of m))
                          | None \<Rightarrow>
                              if negative_marker (lower res) then Inr (Some 0) else Inr None)))))"

text \<open>Line 174, \<^verbatim>\<open>info.get('result', '') or ''\<close>: a null result is read as the empty string.\<close>

definition result_or_empty :: "test_entry \<Rightarrow> string" where
  "result_or_empty info = (case result info of JNull \<Rightarrow> [] | JStr s \<Rightarrow> s)"

definition extract_micro_info :: "envelope \<Rightarrow> micro_key \<Rightarrow> exn + rat option" where
  "extract_micro_info data key =
     (case first_match (COMPILED_MICRO key) (env_test_results data) of
        Inl e \<Rightarrow> Inl e
      | Inr None \<Rightarrow> Inr None
      | Inr (Some info) \<Rightarrow>
          (case search_number_cfu (result_or_empty info) of
             Some m \<Rightarrow> Inr (Some (float_of m))
           | None \<Rightarrow>
               if negative_marker (lower (result_or_empty info)) then Inr (Some 0) else Inr None))"

text \<open>
  \<^verbatim>\<open>extract_field\<close> (lines 188-194): the cell is parsed with \<^verbatim>\<open>json.loads\<close>, and any
  exception of the parse or of the extractor gives \<^verbatim>\<open>None\<close>; on a parsed value that
  is not a dictionary the extractor raises at its first \<^verbatim>\<open>.get\<close>.
\<close>

definition extract_field :: "ext \<Rightarrow> string \<Rightarrow> (envelope \<Rightarrow> exn + rat option) \<Rightarrow> rat option" where
  "extract_field X cell extractor_func =
     (case json_loads X cell of
        None \<Rightarrow> None
      | Some PyOther \<Rightarrow> None
      | Some (PyDict data) \<Rightarrow> (case extractor_func data of Inl e \<Rightarrow> None | Inr v \<Rightarrow> v))"

section \<open>Step 1: candidate rows (lines 84-108, 130-134, 364-398)\<close>

text \<open>A row of the sheet \<^verbatim>\<open>Extracted Data\<close>; every cell of the sheet is a string.\<close>

record document =
  doc_filename :: string
  doc_filename_clean :: string
  doc_json_values :: string

text \<open>The dictionary \<^verbatim>\<open>{}\<close>: every key is absent.\<close>

definition empty_envelope :: envelope where
  "empty_envelope = \<lparr> env_lot_number = LotNone, env_lot_numbers = LotNone,
     env_product_name = None, env_manufacture_date = None, env_expiry_date = None,
     env_test_results = [], env_coa_sufficient_content = None \<rparr>"

text \<open>
  Lines 92-96 of \<^verbatim>\<open>safe_parse\<close>: the cell is stripped, and the quotes that the sheet
  puts before a formula-like value are removed when a brace follows them.
\<close>

definition prepare_text :: "string \<Rightarrow> string" where
  "prepare_text cell =
     (let text = strip cell
      in if take 1 text = [CHR 0x27] \<and> take 1 (dropWhile is_space (drop 1 text)) = ''{''
         then dropWhile (\<lambda>c. c = CHR 0x27) text else text)"

text \<open>
  Lines 98-108: \<^verbatim>\<open>json.loads\<close> first, \<^verbatim>\<open>ast.literal_eval\<close> when it raises
  \<^verbatim>\<open>JSONDecodeError\<close>, and \<^verbatim>\<open>{}\<close> when that raises too.
\<close>

definition safe_parse :: "ext \<Rightarrow> string \<Rightarrow> pyval" where
  "safe_parse X cell =
     (case json_loads X (prepare_text cell) of
        Some v \<Rightarrow> v
      | None \<Rightarrow>
          (case literal_eval X (prepare_text cell) of
             Some v \<Rightarrow> v
           | None \<Rightarrow> PyDict empty_envelope))"

text \<open>
  Line 367, \<^verbatim>\<open>d.get("lot_number") or d.get("lot_numbers") or [0]\<close>: a missing or null
  value, the empty string and the empty list are falsy. The sentinel \<^verbatim>\<open>0\<close> is only ever
  read through \<^verbatim>\<open>str\<close>, so it is written as the string \<open>0\<close>. The result is the
  column after \<^verbatim>\<open>explode\<close>: a string gives one row, a list one row per element.
\<close>

definition truthy :: "lot_value \<Rightarrow> bool" where
  "truthy v = (case v of LotNone \<Rightarrow> False | LotStr s \<Rightarrow> s \<noteq> [] | LotList xs \<Rightarrow> xs \<noteq> [])"

definition lot_numbers_of :: "envelope \<Rightarrow> string option list" where
  "lot_numbers_of d =
     (let v = (if truthy (env_lot_number d) then env_lot_number d
               else if truthy (env_lot_numbers d) then env_lot_numbers d
               else LotList [Some ''0''])
      in case v of LotNone \<Rightarrow> [] | LotStr s \<Rightarrow> [Some s] | LotList xs \<Rightarrow> xs)"

text \<open>\<^verbatim>\<open>re.search(r'M\d{4,6}', s)\<close> (line 133) and \<^verbatim>\<open>findall\<close> of the same pattern (line 386).\<close>

fun search_M :: "string \<Rightarrow> string option" where
  "search_M [] = None"
| "search_M (c # cs) =
     (if c = CHR ''M'' \<and> 4 \<le> length (takeWhile is_digit cs)
      then Some (c # take 6 (takeWhile is_digit cs))
      else search_M cs)"

fun findall_M :: "string \<Rightarrow> string list" where
  "findall_M [] = []"
| "findall_M (c # cs) =
     (if c = CHR ''M'' \<and> 4 \<le> length (takeWhile is_digit cs)
      then (c # take 6 (takeWhile is_digit cs)) #
           findall_M (drop (min 6 (length (takeWhile is_digit cs))) cs)
      else findall_M cs)"

definition clean_and_extract_lot :: "string \<Rightarrow> string option" where
  "clean_and_extract_lot x = search_M (strip_non_word x)"

text \<open>
  Lines 364-368 on one row: the lambda calls \<^verbatim>\<open>d.get\<close> on whatever \<^verbatim>\<open>safe_parse\<close>
  returned.
\<close>

definition lot_numbers :: "ext \<Rightarrow> document \<Rightarrow> exn + string option list" where
  "lot_numbers X doc =
     (case safe_parse X (doc_json_values doc) of
        PyOther \<Rightarrow> Inl AttributeError
      | PyDict d \<Rightarrow> Inr (lot_numbers_of d))"

text \<open>Lines 371-380: null elements are dropped after the explode, then each lot is cleaned.\<close>

definition lot_number_col :: "string option list \<Rightarrow> string option list" where
  "lot_number_col lots =
     map clean_and_extract_lot (concat (map (\<lambda>v. case v of None \<Rightarrow> [] | Some s \<Rightarrow> [s]) lots))"

text \<open>\<^verbatim>\<open>list(dict.fromkeys(lst))\<close>: the first occurrence of every element, in order.\<close>

definition dedupe :: "'a list \<Rightarrow> 'a list" where
  "dedupe xs = rev (remdups (rev xs))"

text \<open>Lines 383-389; \<open>None\<close> is the sentinel \<^verbatim>\<open>0\<close> of a file name without M-number.\<close>

definition m_numbers :: "document \<Rightarrow> string option list" where
  "m_numbers doc =
     (let lst = dedupe (findall_M (strip_non_word (doc_filename_clean doc)))
      in if lst = [] then [None] else map Some lst)"

text \<open>The rows of \<^verbatim>\<open>extracted_df3\<close>: document, \<^verbatim>\<open>lot_number\<close>, \<^verbatim>\<open>m_number\<close>.\<close>

definition explode_document :: "ext \<Rightarrow> document \<Rightarrow> exn + (document \<times> string option \<times> string option) list" where
  "explode_document X doc =
     (case lot_numbers X doc of
        Inl e \<Rightarrow> Inl e
      | Inr lots \<Rightarrow>
          Inr (concat (map (\<lambda>lot. map (\<lambda>m. (doc, lot, m)) (m_numbers doc)) (lot_number_col lots))))"

text \<open>
  A column operation that may raise, applied down the rows: the first exception ends the
  run, otherwise the results are concatenated.
\<close>

fun collect :: "('a \<Rightarrow> exn + 'b list) \<Rightarrow> 'a list \<Rightarrow> exn + 'b list" where
  "collect f [] = Inr []"
| "collect f (x # xs) =
     (case f x of
        Inl e \<Rightarrow> Inl e
      | Inr ys \<Rightarrow> (case collect f xs of Inl e \<Rightarrow> Inl e | Inr zs \<Rightarrow> Inr (ys @ zs)))"

definition extracted_df3 :: "ext \<Rightarrow> document list \<Rightarrow> exn + (document \<times> string option \<times> string option) list" where
  "extracted_df3 X docs = collect (explode_document X) docs"

section \<open>Step 2: test values and general info (lines 197-208, 404-419)\<close>

record cand_row = base_row +
  lot_number :: "string option"
  m_number :: "string option"

definition test_columns :: "ext \<Rightarrow> string \<Rightarrow> (string \<times> rat option) list" where
  "test_columns X cell =
     map (\<lambda>(name, key). (name, extract_field X cell (\<lambda>d. extract_chem_info d key)))
       [(''arsenic_ppm'', arsenic_ppm), (''cadmium_ppm'', cadmium_ppm), (''chromium_ppm'', chromium_ppm),
        (''lead_ppm'', lead_ppm), (''mercury_ppm'', mercury_ppm),
        (''total_plate_count'', total_plate_count), (''yeast_and_mold'', yeast_and_mold)] @
     map (\<lambda>(name, key). (name, extract_field X cell (\<lambda>d. extract_micro_info d key)))
       [(''e_coli'', e_coli), (''salmonella'', salmonella),
        (''staphylococcus_aureus'', staphylococcus_aureus)]"

definition extract_general_info :: "ext \<Rightarrow> string \<Rightarrow> string option \<times> string option \<times> string option" where
  "extract_general_info X cell =
     (case json_loads X cell of
        None \<Rightarrow> (None, None, None)
      | Some PyOther \<Rightarrow> (None, None, None)
      | Some (PyDict data) \<Rightarrow>
          (env_product_name data, env_manufacture_date data, env_expiry_date data))"

definition extracted_df4_row :: "ext \<Rightarrow> document \<times> string option \<times> string option \<Rightarrow> cand_row" where
  "extracted_df4_row X row =
     (case row of (doc, lot, m) \<Rightarrow>
        (case extract_general_info X (doc_json_values doc) of (pn, md, ed) \<Rightarrow>
           \<lparr> filename = doc_filename doc, json_values = doc_json_values doc,
             tests = test_columns X (doc_json_values doc),
             product_name = pn, manufacture_date = md, expiry_date = ed,
             lot_number = lot, m_number = m \<rparr>))"

definition extracted_df4 :: "ext \<Rightarrow> (document \<times> string option \<times> string option) list \<Rightarrow> cand_row list" where
  "extracted_df4 X rows = map (extracted_df4_row X) rows"

section \<open>Step 3: exact matches against the order registry (lines 425-486)\<close>

text \<open>
  A row of \<^verbatim>\<open>order_df\<close> with its key column \<^verbatim>\<open>lot_number_order_clean\<close> (lines 426-441)
  already computed.
\<close>

record order_row =
  lot_number_order_clean :: string
  order_part_number :: "string option"
  order_description :: "string option"

text \<open>
  Lines 442-447. \<^verbatim>\<open>.str.lower()\<close> leaves a missing value as it is and gives NaN for a
  value that is not a string, and \<^verbatim>\<open>str\<close> turns these into \<open>None\<close> and \<open>nan\<close>. A
  missing \<^verbatim>\<open>lot_number\<close> is Python's \<^verbatim>\<open>None\<close>; a missing \<^verbatim>\<open>m_number\<close> is the
  integer sentinel. The \<^verbatim>\<open>.str\<close> accessor itself raises \<^verbatim>\<open>AttributeError\<close> on a column
  that holds integers only, that is, when the table has rows and no file name holds an
  M-number; a column of strings and \<^verbatim>\<open>None\<close>, and an empty column, are accepted.
\<close>

definition lot_number_clean :: "string option \<Rightarrow> string" where
  "lot_number_clean v = (case v of None \<Rightarrow> ''None'' | Some s \<Rightarrow> strip_non_word (lower s))"

definition m_number_clean :: "string option \<Rightarrow> string" where
  "m_number_clean v = (case v of None \<Rightarrow> ''nan'' | Some s \<Rightarrow> strip_non_word (lower s))"

text \<open>
  One side of a left merge: the code and name of every registry row with the key, in
  registry order, or one pair of nulls when no registry row has the key.
\<close>

definition lookup_order :: "order_row list \<Rightarrow> string \<Rightarrow> (string option \<times> string option) list" where
  "lookup_order order_df k =
     (let hits = filter (\<lambda>ord. lot_number_order_clean ord = k) order_df
      in if hits = [] then [(None, None)]
         else map (\<lambda>ord. (order_part_number ord, order_description ord)) hits)"

record mrow = cand_row +
  rm_code1 :: "string option"
  rm_name1 :: "string option"
  rm_code2 :: "string option"
  rm_name2 :: "string option"
  clean_product_name :: string
  name_similarity1 :: int
  name_similarity2 :: int
  name_similarity :: int

definition mk_mrow :: "ext \<Rightarrow> cand_row \<Rightarrow> string option \<times> string option \<Rightarrow> string option \<times> string option \<Rightarrow> mrow" where
  "mk_mrow X r m1 m2 =
     (let cpn = clean_text (product_name r);
          s1 = int (token_set_ratio X cpn (clean_text (snd m1)));
          s2 = int (token_set_ratio X cpn (clean_text (snd m2)))
      in \<lparr> filename = filename r, json_values = json_values r, tests = tests r,
           product_name = product_name r, manufacture_date = manufacture_date r,
           expiry_date = expiry_date r, lot_number = lot_number r, m_number = m_number r,
           rm_code1 = fst m1, rm_name1 = snd m1, rm_code2 = fst m2, rm_name2 = snd m2,
           clean_product_name = cpn, name_similarity1 = s1, name_similarity2 = s2,
           name_similarity = max s1 s2 \<rparr>)"

definition merge_order :: "ext \<Rightarrow> order_row list \<Rightarrow> cand_row \<Rightarrow> mrow list" where
  "merge_order X order_df r =
     concat (map (\<lambda>m1. map (\<lambda>m2. mk_mrow X r m1 m2)
                          (lookup_order order_df (m_number_clean (m_number r))))
               (lookup_order order_df (lot_number_clean (lot_number r))))"

definition merged_extracted_df2 :: "ext \<Rightarrow> order_row list \<Rightarrow> cand_row list \<Rightarrow> exn + mrow list" where
  "merged_extracted_df2 X order_df rows =
     (if rows \<noteq> [] \<and> list_all (\<lambda>r. m_number r = None) rows then Inl AttributeError
      else Inr (concat (map (merge_order X order_df) rows)))"

section \<open>Step 4: fallback match for unmatched files (lines 289-310, 491-512)\<close>

text \<open>A row of \<^verbatim>\<open>rm_df\<close>, and \<^verbatim>\<open>str\<close> of a cell of it.\<close>

record rm_item =
  part_number :: "string option"
  description :: "string option"

definition py_str :: "string option \<Rightarrow> string" where
  "py_str v = (case v of None \<Rightarrow> ''None'' | Some s \<Rightarrow> s)"

record match_info =
  matched_part_number :: "string option"
  matched_description :: "string option"
  similarity_score :: int

text \<open>One turn of the loop of \<^verbatim>\<open>find_best_match\<close> on the state \<^verbatim>\<open>(best_score, best_row)\<close>.\<close>

definition best_step :: "ext \<Rightarrow> string \<Rightarrow> int \<times> rm_item option \<Rightarrow> rm_item \<Rightarrow> int \<times> rm_item option" where
  "best_step X pname st row =
     (let score = int (token_set_ratio X pname (py_str (description row)))
      in if score > fst st then (score, Some row) else st)"

definition find_best_match :: "ext \<Rightarrow> string \<Rightarrow> rm_item list \<Rightarrow> match_info" where
  "find_best_match X pname rm_df =
     (case foldl (best_step X pname) (- 1, None) rm_df of
        (best_score, Some best_row) \<Rightarrow>
          \<lparr> matched_part_number = part_number best_row,
            matched_description = description best_row,
            similarity_score = best_score \<rparr>
      | (best_score, None) \<Rightarrow>
          \<lparr> matched_part_number = None, matched_description = None, similarity_score = 0 \<rparr>)"

text \<open>The maximum of a group; a group is never empty, and the first equation is not used.\<close>

fun list_max :: "int list \<Rightarrow> int" where
  "list_max [] = 0"
| "list_max [x] = x"
| "list_max (x # y # ys) = max x (list_max (y # ys))"

text \<open>
  Line 491: one row per pair of file name and clean product name, in sorted key order,
  with the greatest \<^verbatim>\<open>name_similarity\<close> of the pair.
\<close>

definition grouped_df :: "mrow list \<Rightarrow> (string \<times> string \<times> int) list" where
  "grouped_df rows =
     map (\<lambda>k. (fst k, snd k,
                list_max (map name_similarity
                  (filter (\<lambda>r. (filename r, clean_product_name r) = k) rows))))
       (sort (remdups (map (\<lambda>r. (filename r, clean_product_name r)) rows)))"

definition unmatched_file_merged :: "ext \<Rightarrow> rm_item list \<Rightarrow> mrow list \<Rightarrow> (string \<times> match_info) list" where
  "unmatched_file_merged X rm_df rows =
     map (\<lambda>g. (fst g, find_best_match X (fst (snd g)) rm_df))
       (filter (\<lambda>g. snd (snd g) = 0) (grouped_df rows))"

record mrow3 = mrow +
  rm_code3 :: "string option"
  rm_name3 :: "string option"
  name_similarity3 :: "int option"

definition mk_mrow3 :: "mrow \<Rightarrow> string option \<Rightarrow> string option \<Rightarrow> int option \<Rightarrow> mrow3" where
  "mk_mrow3 r c3 n3 s3 =
     \<lparr> filename = filename r, json_values = json_values r, tests = tests r,
       product_name = product_name r, manufacture_date = manufacture_date r,
       expiry_date = expiry_date r, lot_number = lot_number r, m_number = m_number r,
       rm_code1 = rm_code1 r, rm_name1 = rm_name1 r, rm_code2 = rm_code2 r, rm_name2 = rm_name2 r,
       clean_product_name = clean_product_name r, name_similarity1 = name_similarity1 r,
       name_similarity2 = name_similarity2 r, name_similarity = name_similarity r,
       rm_code3 = c3, rm_name3 = n3, name_similarity3 = s3 \<rparr>"

text \<open>Lines 508-512: the left merge on \<^verbatim>\<open>filename\<close>.\<close>

definition merge_unmatched :: "(string \<times> match_info) list \<Rightarrow> mrow \<Rightarrow> mrow3 list" where
  "merge_unmatched unmatched r =
     (let hits = filter (\<lambda>u. fst u = filename r) unmatched
      in if hits = [] then [mk_mrow3 r None None None]
         else map (\<lambda>u. mk_mrow3 r (matched_part_number (snd u)) (matched_description (snd u))
                          (Some (similarity_score (snd u)))) hits)"

text \<open>
  The columns \<^verbatim>\<open>rm_code3\<close>, \<^verbatim>\<open>rm_name3\<close> and \<^verbatim>\<open>name_similarity3\<close> come from the
  results of \<^verbatim>\<open>find_best_match\<close>; when no file is unmatched the \<^verbatim>\<open>apply\<close> of line 497
  returns an empty series, the columns do not exist, and their selection at line 509
  raises \<^verbatim>\<open>KeyError\<close>.
\<close>

definition merged_extracted_df3 :: "ext \<Rightarrow> rm_item list \<Rightarrow> mrow list \<Rightarrow> exn + mrow3 list" where
  "merged_extracted_df3 X rm_df rows =
     (if unmatched_file_merged X rm_df rows = [] then Inl KeyError
      else Inr (concat (map (merge_unmatched (unmatched_file_merged X rm_df rows)) rows)))"

section \<open>Step 5: per-document winner and final assignment (lines 517-576)\<close>

text \<open>
  \<^verbatim>\<open>groupby("filename")["name_similarity"].rank(method="first", ascending=False)\<close>: the
  rank of row \<open>i\<close> is one more than the number of rows of its file with a greater
  similarity, or with the same similarity and an earlier position.
\<close>

definition rank1 :: "mrow3 list \<Rightarrow> nat \<Rightarrow> nat" where
  "rank1 rows i =
     1 + length (filter (\<lambda>j. filename (rows ! j) = filename (rows ! i) \<and>
                   (name_similarity (rows ! i) < name_similarity (rows ! j) \<or>
                    (name_similarity (rows ! j) = name_similarity (rows ! i) \<and> j < i)))
                 [0 ..< length rows])"

definition file_max :: "mrow3 list \<Rightarrow> string \<Rightarrow> int" where
  "file_max rows f = list_max (map name_similarity (filter (\<lambda>r. filename r = f) rows))"

text \<open>The rows of \<^verbatim>\<open>merged_extracted_df4\<close>, each with its \<^verbatim>\<open>max_name_similarity\<close>.\<close>

definition merged_extracted_df4 :: "mrow3 list \<Rightarrow> (mrow3 \<times> int) list" where
  "merged_extracted_df4 rows =
     map (\<lambda>i. (rows ! i, file_max rows (filename (rows ! i))))
       (filter (\<lambda>i. rank1 rows i = 1) [0 ..< length rows])"

text \<open>
  \<^verbatim>\<open>extract_coa_sufficient_content\<close> (lines 211-219); only \<^verbatim>\<open>JSONDecodeError\<close> is
  caught, so \<^verbatim>\<open>.get\<close> on a parsed value that is not a dictionary raises.
\<close>

definition extract_coa_sufficient_content :: "ext \<Rightarrow> string \<Rightarrow> exn + int option" where
  "extract_coa_sufficient_content X x =
     (if strip x = [] then Inr None
      else case json_loads X x of
             None \<Rightarrow> Inr None
           | Some PyOther \<Rightarrow> Inl AttributeError
           | Some (PyDict data) \<Rightarrow> Inr (env_coa_sufficient_content data))"

text \<open>Lines 533-576 on one row with its \<^verbatim>\<open>max_name_similarity\<close> and its score.\<close>

definition final_row :: "mrow3 \<times> int \<Rightarrow> int option \<Rightarrow> frow" where
  "final_row rm score =
     (case rm of (r, mx) \<Rightarrow>
        \<lparr> filename = filename r, json_values = json_values r, tests = tests r,
          product_name = product_name r, manufacture_date = manufacture_date r,
          expiry_date = expiry_date r,
          rm_id_final =
            (if mx \<noteq> 0 \<and> name_similarity1 r = name_similarity r then rm_code1 r
             else if mx \<noteq> 0 \<and> name_similarity2 r = name_similarity r then rm_code2 r
             else rm_code3 r),
          rm_name_final =
            (if mx \<noteq> 0 \<and> name_similarity1 r = name_similarity r then rm_name1 r
             else if mx \<noteq> 0 \<and> name_similarity2 r = name_similarity r then rm_name2 r
             else rm_name3 r),
          name_similarity_final = (if mx = 0 then name_similarity3 r else Some mx),
          max_name_similarity = mx,
          coa_sufficient_content = score \<rparr>)"

definition rm_final_row :: "ext \<Rightarrow> mrow3 \<times> int \<Rightarrow> exn + frow list" where
  "rm_final_row X rm =
     (case extract_coa_sufficient_content X (json_values (fst rm)) of
        Inl e \<Rightarrow> Inl e
      | Inr score \<Rightarrow> Inr [final_row rm score])"

definition rm_final_of :: "ext \<Rightarrow> mrow3 list \<Rightarrow> exn + frow list" where
  "rm_final_of X rows = collect (rm_final_row X) (merged_extracted_df4 rows)"

section \<open>Step 6: quality filter (lines 581-584)\<close>

text \<open>A comparison with NaN is false, so a null score or similarity fails its test.\<close>

definition passes_quality :: "frow \<Rightarrow> bool" where
  "passes_quality r \<longleftrightarrow>
     (max_name_similarity r \<ge> 50 \<or>
        (case name_similarity_final r of None \<Rightarrow> False | Some s \<Rightarrow> s \<ge> 80)) \<and>
     (case coa_sufficient_content r of None \<Rightarrow> False | Some c \<Rightarrow> c \<ge> 8)"

definition quality_filter :: "frow list \<Rightarrow> frow list" where
  "quality_filter rm_final = filter passes_quality rm_final"

section \<open>Per-entity ranking: \<^verbatim>\<open>custom_rank\<close> (lines 313-335)\<close>

text \<open>
  \<^verbatim>\<open>sort_values(col, ascending=False)\<close> takes the rows in the order of an argsort of the
  key column. The default sort of pandas is not stable, so the order of rows with equal
  keys is left to the library: a \<open>sorter\<close> is any function that returns, for every
  key column, a permutation of its positions along which the keys descend.
\<close>

typedef sorter =
  "{f :: string list \<Rightarrow> nat list.
      \<forall>ks. distinct (f ks) \<and> set (f ks) = {..<length ks} \<and> sorted (rev (map ((!) ks) (f ks)))}"
  morphisms argsort_desc Abs_sorter
proof
  show "(\<lambda>ks. rev (sort_key ((!) ks) (rev [0 ..< length ks]))) \<in>
          {f :: string list \<Rightarrow> nat list.
             \<forall>ks. distinct (f ks) \<and> set (f ks) = {..<length ks} \<and> sorted (rev (map ((!) ks) (f ks)))}"
    by (auto simp: rev_map)
qed

setup_lifting type_definition_sorter

definition sort_values_desc :: "sorter \<Rightarrow> ('a \<Rightarrow> string) \<Rightarrow> 'a list \<Rightarrow> 'a list" where
  "sort_values_desc S key xs = map ((!) xs) (argsort_desc S (map key xs))"

definition date_key :: "string option \<Rightarrow> string" where
  "date_key d = (case d of None \<Rightarrow> [] | Some s \<Rightarrow> s)"

text \<open>
  A row of a data frame with its index label; the labels of \<^verbatim>\<open>rm_final2\<close> are distinct,
  and here they are the positions of the rows.
\<close>

type_synonym irow = "nat \<times> frow"

text \<open>
  The result pairs every row with its \<^verbatim>\<open>rank\<close> column. \<^verbatim>\<open>row_order\<close> is
  \<^verbatim>\<open>range(len(group))\<close>, so sorting the third partition by it leaves that partition in
  the order of the group.
\<close>

definition custom_rank :: "sorter \<Rightarrow> irow list \<Rightarrow> (irow \<times> nat) list" where
  "custom_rank S grp =
     (let with_mfg = filter (\<lambda>r. manufacture_date (snd r) \<noteq> None) grp;
          with_expiry =
            filter (\<lambda>r. manufacture_date (snd r) = None \<and> expiry_date (snd r) \<noteq> None) grp;
          fallback = filter (\<lambda>r. manufacture_date (snd r) = None \<and> expiry_date (snd r) = None) grp;
          with_mfg = sort_values_desc S (\<lambda>r. date_key (manufacture_date (snd r))) with_mfg;
          with_expiry = sort_values_desc S (\<lambda>r. date_key (expiry_date (snd r))) with_expiry
      in zip with_mfg [1 ..< length with_mfg + 1] @
         zip with_expiry [length with_mfg + 1 ..< length with_mfg + length with_expiry + 1] @
         zip fallback [length with_mfg + length with_expiry + 1 ..< length grp + 1])"

text \<open>
  The rows of \<^verbatim>\<open>combined\<close> (line 334) in their order, and the row at its head: the
  proofs below show that this is the row that receives rank 1.
\<close>

definition combined_order :: "sorter \<Rightarrow> irow list \<Rightarrow> irow list" where
  "combined_order S grp =
     sort_values_desc S (\<lambda>r. date_key (manufacture_date (snd r)))
       (filter (\<lambda>r. manufacture_date (snd r) \<noteq> None) grp) @
     sort_values_desc S (\<lambda>r. date_key (expiry_date (snd r)))
       (filter (\<lambda>r. manufacture_date (snd r) = None \<and> expiry_date (snd r) \<noteq> None) grp) @
     filter (\<lambda>r. manufacture_date (snd r) = None \<and> expiry_date (snd r) = None) grp"

text \<open>
  \<^verbatim>\<open>groupby('rm_id_final', group_keys=False).apply(custom_rank)\<close> (line 587). The group
  keys are the distinct non-null codes in sorted order; rows with a null key belong to no
  group; each group holds its rows in table order. When the function returns some group
  with its index in another order, pandas concatenates the results in key order;
  when every result keeps the index of its group, pandas puts the rows back in table
  order.
\<close>

definition group_keys :: "frow list \<Rightarrow> string list" where
  "group_keys rows = sort (remdups (concat (map (\<lambda>r. case rm_id_final r of None \<Rightarrow> [] | Some c \<Rightarrow> [c]) rows)))"

definition with_index :: "frow list \<Rightarrow> irow list" where
  "with_index rows = zip [0 ..< length rows] rows"

definition get_group :: "frow list \<Rightarrow> string \<Rightarrow> frow list" where
  "get_group rows c = filter (\<lambda>r. rm_id_final r = Some c) rows"

definition get_group_indexed :: "frow list \<Rightarrow> string \<Rightarrow> irow list" where
  "get_group_indexed rows c = filter (\<lambda>r. rm_id_final (snd r) = Some c) (with_index rows)"

definition group_winner :: "sorter \<Rightarrow> frow list \<Rightarrow> string \<Rightarrow> irow" where
  "group_winner S rows c = hd (combined_order S (get_group_indexed rows c))"

definition mutated :: "sorter \<Rightarrow> frow list \<Rightarrow> bool" where
  "mutated S rows \<longleftrightarrow>
     list_ex (\<lambda>c. map (\<lambda>x. fst (fst x)) (custom_rank S (get_group_indexed rows c)) \<noteq> map fst (get_group_indexed rows c))
       (group_keys rows)"

definition groupby_apply_custom_rank :: "sorter \<Rightarrow> frow list \<Rightarrow> (irow \<times> nat) list" where
  "groupby_apply_custom_rank S rows =
     (let results = concat (map (\<lambda>c. custom_rank S (get_group_indexed rows c)) (group_keys rows))
      in if mutated S rows then results else sort_key (\<lambda>x. fst (fst x)) results)"

section \<open>Step 7: the rows kept and the columns exported (lines 592-612)\<close>

text \<open>
  With no group at all \<^verbatim>\<open>apply\<close> never calls \<^verbatim>\<open>custom_rank\<close> and returns the empty
  table with its old columns, so reading the column \<^verbatim>\<open>rank\<close> at line 592 raises
  \<^verbatim>\<open>KeyError\<close>.
\<close>

definition rank1_rows :: "sorter \<Rightarrow> frow list \<Rightarrow> exn + frow list" where
  "rank1_rows S rm_final =
     (if group_keys (quality_filter rm_final) = [] then Inl KeyError
      else Inr (map (\<lambda>x. snd (fst x))
                  (filter (\<lambda>x. snd x = 1) (groupby_apply_custom_rank S (quality_filter rm_final)))))"

definition to_out_row :: "frow \<Rightarrow> out_row" where
  "to_out_row r = \<lparr> pr_codenum = rm_id_final r, out_rm_name_final = rm_name_final r,
     out_tests = tests r, out_manufacture_date = manufacture_date r,
     out_expiry_date = expiry_date r \<rparr>"

definition rm_clean :: "sorter \<Rightarrow> frow list \<Rightarrow> exn + out_row list" where
  "rm_clean S rm_final =
     (case rank1_rows S rm_final of Inl e \<Rightarrow> Inl e | Inr rows \<Rightarrow> Inr (map to_out_row rows))"

section \<open>The pipeline (lines 341-620)\<close>

text \<open>
  The steps above composed, from the rows of the sheet to the returned \<^verbatim>\<open>rm_clean\<close>;
  the file written at lines 615-617 holds the same rows without the columns
  \<^verbatim>\<open>rm_name_final\<close>, \<^verbatim>\<open>manufacture_date\<close> and \<^verbatim>\<open>expiry_date\<close>. The registry and
  the catalog are the tables that lines 425-436 load. An exception of a step ends the
  run.
\<close>

definition exact_rows :: "ext \<Rightarrow> order_row list \<Rightarrow> document list \<Rightarrow> exn + mrow list" where
  "exact_rows X order_df docs =
     (case extracted_df3 X docs of
        Inl e \<Rightarrow> Inl e
      | Inr rows \<Rightarrow> merged_extracted_df2 X order_df (extracted_df4 X rows))"

definition matched_rows :: "ext \<Rightarrow> order_row list \<Rightarrow> rm_item list \<Rightarrow> document list \<Rightarrow> exn + mrow3 list" where
  "matched_rows X order_df rm_df docs =
     (case exact_rows X order_df docs of
        Inl e \<Rightarrow> Inl e
      | Inr rows \<Rightarrow> merged_extracted_df3 X rm_df rows)"

definition process_validation ::
  "ext \<Rightarrow> sorter \<Rightarrow> order_row list \<Rightarrow> rm_item list \<Rightarrow> document list \<Rightarrow> exn + out_row list" where
  "process_validation X S order_df rm_df docs =
     (case matched_rows X order_df rm_df docs of
        Inl e \<Rightarrow> Inl e
      | Inr rows \<Rightarrow>
          (case rm_final_of X rows of
             Inl e \<Rightarrow> Inl e
           | Inr rm_final \<Rightarrow> rm_clean S rm_final))"

section \<open>Example tables\<close>

text \<open>A sorter: the stable one, which keeps rows with equal keys in their order.\<close>

lift_definition stable_sorter :: sorter is
  "\<lambda>ks. rev (sort_key ((!) ks) (rev [0 ..< length ks]))"
  by (auto simp: rev_map)

definition mk_frow ::
  "string \<Rightarrow> string option \<Rightarrow> int \<Rightarrow> int option \<Rightarrow> int option \<Rightarrow> string option \<Rightarrow> string option \<Rightarrow> frow" where
  "mk_frow f c m s q md ed = \<lparr> filename = f, json_values = [], tests = [], product_name = None,
     manufacture_date = md, expiry_date = ed, rm_id_final = c, rm_name_final = None,
     name_similarity_final = s, max_name_similarity = m, coa_sufficient_content = q \<rparr>"

definition ex_a :: frow where
  "ex_a = mk_frow ''a.pdf'' (Some ''RM2'') 70 (Some 70) (Some 9) None None"

definition ex_b :: frow where
  "ex_b = mk_frow ''b.pdf'' (Some ''RM1'') 90 (Some 90) (Some 9) (Some ''2024-01-01'') None"

definition ex_c :: frow where
  "ex_c = mk_frow ''c.pdf'' (Some ''RM1'') 60 (Some 60) (Some 8) (Some ''2024-06-01'') None"

definition ex_d :: frow where
  "ex_d = mk_frow ''d.pdf'' None 95 (Some 95) (Some 10) None None"

definition ex_e :: frow where
  "ex_e = mk_frow ''e.pdf'' (Some ''RM2'') 0 (Some 85) (Some 10) None (Some ''2025-01-01'')"

definition ex_f :: frow where
  "ex_f = mk_frow ''f.pdf'' (Some ''RM3'') 99 (Some 99) (Some 7) None None"

definition example_rm_final :: "frow list" where
  "example_rm_final = [ex_a, ex_b, ex_c, ex_d, ex_e, ex_f]"

definition mk_env :: "test_entry list \<Rightarrow> envelope" where
  "mk_env ts = \<lparr> env_lot_number = LotNone, env_lot_numbers = LotNone, env_product_name = None,
     env_manufacture_date = None, env_expiry_date = None, env_test_results = ts,
     env_coa_sufficient_content = None \<rparr>"

text \<open>Library functions for the examples: every cell parses to \<open>d\<close>; equal names score 100.\<close>

definition const_ext :: "envelope \<Rightarrow> ext" where
  "const_ext d = \<lparr> json_loads = (\<lambda>s. Some (PyDict d)), literal_eval = (\<lambda>s. None),
     token_set_ratio = (\<lambda>a b. if a = b then 100 else 0) \<rparr>"

definition ex_catalog :: "rm_item list" where
  "ex_catalog =
     [\<lparr>part_number = Some ''RM1'', description = Some ''ginger extract''\<rparr>,
      \<lparr>part_number = Some ''RM2'', description = Some ''turmeric extract''\<rparr>,
      \<lparr>part_number = Some ''RM3'', description = Some ''turmeric extract''\<rparr>]"

text \<open>
  A run with three documents: \<open>doc_a\<close> has two lot numbers and one M-number in its file
  name, \<open>doc_b\<close> has neither, and the cell of \<open>doc_c\<close> is not parsable. The cell of
  \<open>doc_d\<close>, which is not part of that run, is not JSON and is the Python literal of a
  tuple. The library functions of the example parse the cells \<open>A\<close> and \<open>B\<close> as JSON,
  read the cell of \<open>doc_d\<close> as a Python literal that is not a dictionary, fail on every
  other cell, and score two equal non-empty names 100, any other pair 0.
\<close>

definition ex_env_a :: envelope where
  "ex_env_a = \<lparr> env_lot_number = LotNone, env_lot_numbers = LotList [Some ''M11111'', Some ''M22222''],
     env_product_name = Some ''Turmeric Extract'', env_manufacture_date = Some ''2024-06-01'',
     env_expiry_date = None,
     env_test_results = [\<lparr>test = JStr ''Lead (Pb)'', limit = JStr ''5 ppm'', result = JStr ''2.3 ppm''\<rparr>],
     env_coa_sufficient_content = Some 9 \<rparr>"

definition ex_env_b :: envelope where
  "ex_env_b = \<lparr> env_lot_number = LotNone, env_lot_numbers = LotNone,
     env_product_name = Some ''Ginger Extract'', env_manufacture_date = None,
     env_expiry_date = Some ''2026-01-01'', env_test_results = [],
     env_coa_sufficient_content = Some 9 \<rparr>"

definition ex_ext :: ext where
  "ex_ext = \<lparr> json_loads =
       (\<lambda>s. if s = ''A'' then Some (PyDict ex_env_a)
            else if s = ''B'' then Some (PyDict ex_env_b) else None),
     literal_eval = (\<lambda>s. if s = ''(1, 2)'' then Some PyOther else None),
     token_set_ratio = (\<lambda>a b. if a = b \<and> a \<noteq> [] then 100 else 0) \<rparr>"

definition doc_a :: document where
  "doc_a = \<lparr> doc_filename = ''COA_M12345.pdf'', doc_filename_clean = ''COA_M12345'', doc_json_values = ''A'' \<rparr>"

definition doc_b :: document where
  "doc_b = \<lparr> doc_filename = ''b.pdf'', doc_filename_clean = ''b'', doc_json_values = ''B'' \<rparr>"

definition doc_c :: document where
  "doc_c = \<lparr> doc_filename = ''c_M54321.pdf'', doc_filename_clean = ''c_M54321'', doc_json_values = ''not json'' \<rparr>"

definition doc_d :: document where
  "doc_d = \<lparr> doc_filename = ''d_M54321.pdf'', doc_filename_clean = ''d_M54321'', doc_json_values = ''(1, 2)'' \<rparr>"

definition ex_order_df :: "order_row list" where
  "ex_order_df =
     [\<lparr> lot_number_order_clean = ''m11111'', order_part_number = Some ''RM9'', order_description = Some ''Turmeric Extract'' \<rparr>,
      \<lparr> lot_number_order_clean = ''m54321'', order_part_number = Some ''RM7'', order_description = Some ''Ginger Root'' \<rparr>]"

definition ex_docs :: "document list" where
  "ex_docs = [doc_a, doc_b, doc_c]"

section \<open>Properties of the ranking and the export\<close>

lemma argsort_props:
  "distinct (argsort_desc S ks)" "set (argsort_desc S ks) = {..<length ks}"
  "sorted (rev (map ((!) ks) (argsort_desc S ks)))"
  using argsort_desc[of S] by auto

lemma length_argsort: "length (argsort_desc S ks) = length ks"
  using distinct_card[OF argsort_props(1), of S ks] by (simp add: argsort_props(2))

lemma set_sort_values_desc: "set (sort_values_desc S key xs) = set xs"
proof -
  have "set (sort_values_desc S key xs) = (!) xs ` {..<length xs}"
    by (simp add: sort_values_desc_def argsort_props(2))
  also have "\<dots> = set xs"
    by (auto simp: set_conv_nth)
  finally show ?thesis .
qed

lemma length_sort_values_desc: "length (sort_values_desc S key xs) = length xs"
  by (simp add: sort_values_desc_def length_argsort)

lemma sort_values_desc_Nil: "sort_values_desc S key xs = [] \<longleftrightarrow> xs = []"
  using length_sort_values_desc[of S key xs] by (metis length_0_conv)

lemma map_key_sort_values_desc:
  "map key (sort_values_desc S key xs) = map ((!) (map key xs)) (argsort_desc S (map key xs))"
  using argsort_props(2)[of S "map key xs"] by (auto simp: sort_values_desc_def)

lemma sorted_rev_hd_max:
  "sorted (rev zs) \<Longrightarrow> z \<in> set zs \<Longrightarrow> z \<le> hd zs"
  by (cases zs) (auto simp: sorted_append)

lemma hd_sort_values_desc_in: "xs \<noteq> [] \<Longrightarrow> hd (sort_values_desc S key xs) \<in> set xs"
  by (metis hd_in_set set_sort_values_desc sort_values_desc_Nil)

lemma hd_sort_values_desc_max:
  assumes "y \<in> set xs"
  shows "key y \<le> key (hd (sort_values_desc S key xs))"
proof -
  let ?L = "sort_values_desc S key xs"
  have ne: "?L \<noteq> []" using assms sort_values_desc_Nil[of S key xs] by auto
  have "sorted (rev (map key ?L))"
    unfolding map_key_sort_values_desc by (rule argsort_props(3))
  moreover have "key y \<in> set (map key ?L)"
    using assms by (simp add: set_sort_values_desc)
  ultimately have "key y \<le> hd (map key ?L)" by (rule sorted_rev_hd_max)
  then show ?thesis using ne by (simp add: hd_map)
qed

lemma three_way_length:
  "length (filter (\<lambda>r. \<not> P r) xs) + length (filter (\<lambda>r. P r \<and> \<not> Q r) xs)
     + length (filter (\<lambda>r. P r \<and> Q r) xs) = length xs"
  by (induction xs) auto

lemma upt_split3:
  "[Suc 0 ..< Suc (a + b + c)] = [Suc 0 ..< Suc a] @ [Suc a ..< Suc (a + b)] @ [Suc (a + b) ..< Suc (a + b + c)]"
proof -
  have "[Suc 0 ..< Suc a + (b + c)] = [Suc 0 ..< Suc a] @ [Suc a ..< Suc a + (b + c)]"
    by (rule upt_add_eq_append) simp
  moreover have "[Suc a ..< Suc a + b + c] = [Suc a ..< Suc a + b] @ [Suc a + b ..< Suc a + b + c]"
    by (rule upt_add_eq_append) simp
  ultimately show ?thesis
    by (simp add: add.assoc del: upt_Suc)
qed

lemma zip3_upt:
  assumes "length xs = a" "length ys = b" "length zs = c" "n = a + b + c"
  shows "zip xs [1 ..< a + 1] @ zip ys [a + 1 ..< a + b + 1] @ zip zs [a + b + 1 ..< n + 1]
       = zip (xs @ ys @ zs) [1 ..< n + 1]"
  using assms by (simp add: upt_split3 del: upt_Suc)

lemma length_combined_order: "length (combined_order S grp) = length grp"
  using three_way_length[of "\<lambda>r. manufacture_date (snd r) = None" grp "\<lambda>r. expiry_date (snd r) = None"]
  by (simp add: combined_order_def length_sort_values_desc)

lemma custom_rank_zip: "custom_rank S grp = zip (combined_order S grp) [1 ..< length grp + 1]"
proof -
  let ?A = "filter (\<lambda>r. manufacture_date (snd r) \<noteq> None) grp"
  let ?B = "filter (\<lambda>r. manufacture_date (snd r) = None \<and> expiry_date (snd r) \<noteq> None) grp"
  let ?C = "filter (\<lambda>r. manufacture_date (snd r) = None \<and> expiry_date (snd r) = None) grp"
  let ?sA = "sort_values_desc S (\<lambda>r. date_key (manufacture_date (snd r))) ?A"
  let ?sB = "sort_values_desc S (\<lambda>r. date_key (expiry_date (snd r))) ?B"
  have len: "length grp = length ?sA + length ?sB + length ?C"
    using three_way_length[of "\<lambda>r. manufacture_date (snd r) = None" grp "\<lambda>r. expiry_date (snd r) = None"]
    by (simp add: length_sort_values_desc)
  show ?thesis
    unfolding custom_rank_def Let_def combined_order_def
    by (rule zip3_upt[OF refl refl refl len])
qed

lemma filter_zip_upt_above:
  "Suc 0 < k \<Longrightarrow> filter (\<lambda>x. snd x = Suc 0) (zip xs [k ..< k + length xs]) = []"
  by (auto simp: filter_empty_conv dest!: set_zip_rightD)

lemma filter_rank1_zip:
  "filter (\<lambda>x. snd x = 1) (zip xs [1 ..< length xs + 1]) = map (\<lambda>x. (x, 1)) (take 1 xs)"
proof (cases xs)
  case Nil
  then show ?thesis by simp
next
  case (Cons x ys)
  have "[Suc 0 ..< Suc (Suc (length ys))] = Suc 0 # [Suc (Suc 0) ..< Suc (Suc 0) + length ys]"
    by (simp add: upt_conv_Cons del: upt_Suc)
  then show ?thesis
    using Cons filter_zip_upt_above[of "Suc (Suc 0)" ys] by (simp del: upt_Suc)
qed

lemma rank1_custom_rank:
  "filter (\<lambda>x. snd x = 1) (custom_rank S grp) = map (\<lambda>x. (x, 1)) (take 1 (combined_order S grp))"
  using filter_rank1_zip[of "combined_order S grp"]
  by (simp add: custom_rank_zip length_combined_order)

lemma set_combined_order: "set (combined_order S grp) = set grp"
  by (auto simp: combined_order_def set_sort_values_desc)

lemma combined_order_Nil: "combined_order S grp = [] \<longleftrightarrow> grp = []"
  using length_combined_order[of S grp] by (metis length_0_conv)

lemma set_group_keys: "set (group_keys rows) = {c. \<exists>r \<in> set rows. rm_id_final r = Some c}"
  by (auto simp: group_keys_def split: option.splits)

lemma distinct_group_keys: "distinct (group_keys rows)"
  by (simp add: group_keys_def)

lemma map_snd_with_index: "map snd (with_index rows) = rows"
  by (simp add: with_index_def)

lemma map_snd_get_group_indexed: "map snd (get_group_indexed rows c) = get_group rows c"
proof -
  have "map snd (filter (\<lambda>r. rm_id_final (snd r) = Some c) xs) = filter (\<lambda>r. rm_id_final r = Some c) (map snd xs)" for xs :: "irow list"
    by (induction xs) auto
  then show ?thesis
    by (simp add: get_group_indexed_def get_group_def map_snd_with_index)
qed

lemma get_group_nonempty: "c \<in> set (group_keys rows) \<Longrightarrow> get_group rows c \<noteq> []"
  by (auto simp: set_group_keys get_group_def filter_empty_conv)

lemma get_group_indexed_nonempty: "c \<in> set (group_keys rows) \<Longrightarrow> get_group_indexed rows c \<noteq> []"
  using map_snd_get_group_indexed[of rows c] get_group_nonempty[of c rows]
  by (metis map_is_Nil_conv)

lemma group_winner_in:
  "c \<in> set (group_keys rows) \<Longrightarrow> group_winner S rows c \<in> set (get_group_indexed rows c)"
  using get_group_indexed_nonempty[of c rows] combined_order_Nil[of S "get_group_indexed rows c"]
    set_combined_order[of S "get_group_indexed rows c"]
  by (metis group_winner_def hd_in_set)

lemma group_winner_row_in:
  "c \<in> set (group_keys rows) \<Longrightarrow> snd (group_winner S rows c) \<in> set (get_group rows c)"
  using group_winner_in[of c rows S] map_snd_get_group_indexed[of rows c]
  by (metis imageI set_map)

lemma group_winner_code:
  "c \<in> set (group_keys rows) \<Longrightarrow> rm_id_final (snd (group_winner S rows c)) = Some c"
  using group_winner_row_in[of c rows S] by (simp add: get_group_def)

lemma rank1_results:
  "filter (\<lambda>x. snd x = 1) (concat (map (\<lambda>c. custom_rank S (get_group_indexed rows c)) (group_keys rows)))
     = map (\<lambda>c. (group_winner S rows c, 1)) (group_keys rows)"
proof -
  have one: "filter (\<lambda>x. snd x = 1) (custom_rank S (get_group_indexed rows c)) = [(group_winner S rows c, 1)]"
    if "c \<in> set (group_keys rows)" for c
  proof -
    have "combined_order S (get_group_indexed rows c) \<noteq> []"
      using get_group_indexed_nonempty[OF that] by (simp add: combined_order_Nil)
    then have "take 1 (combined_order S (get_group_indexed rows c)) = [group_winner S rows c]"
      by (cases "combined_order S (get_group_indexed rows c)") (simp_all add: group_winner_def)
    then show ?thesis by (simp only: rank1_custom_rank list.map)
  qed
  have "map (\<lambda>c. filter (\<lambda>x. snd x = 1) (custom_rank S (get_group_indexed rows c))) (group_keys rows)
      = map (\<lambda>c. [(group_winner S rows c, 1)]) (group_keys rows)"
    using one by simp
  then show ?thesis
    by (simp only: filter_concat map_map comp_def concat_map_singleton)
qed

lemma rank1_rows_mset:
  assumes "rank1_rows S rm_final = Inr rows"
  shows "group_keys (quality_filter rm_final) \<noteq> []"
    and "mset rows = mset (map (\<lambda>c. snd (group_winner S (quality_filter rm_final) c))
                            (group_keys (quality_filter rm_final)))"
proof -
  let ?F = "quality_filter rm_final"
  let ?res = "concat (map (\<lambda>c. custom_rank S (get_group_indexed ?F c)) (group_keys ?F))"
  let ?L = "map (\<lambda>c. (group_winner S ?F c, 1::nat)) (group_keys ?F)"
  show ne: "group_keys ?F \<noteq> []"
    using assms by (auto simp: rank1_rows_def split: if_splits)
  have "mset (filter Q (groupby_apply_custom_rank S ?F)) = mset (filter Q ?res)" for Q
    by (simp add: groupby_apply_custom_rank_def Let_def)
  then have "mset (filter (\<lambda>x. snd x = 1) (groupby_apply_custom_rank S ?F)) = mset ?L"
    by (simp only: rank1_results)
  then have "mset (map (\<lambda>x. snd (fst x)) (filter (\<lambda>x. snd x = 1) (groupby_apply_custom_rank S ?F)))
      = mset (map (\<lambda>x. snd (fst x)) ?L)"
    by (metis mset_map)
  moreover have "rows = map (\<lambda>x. snd (fst x)) (filter (\<lambda>x. snd x = 1) (groupby_apply_custom_rank S ?F))"
    using assms ne by (simp add: rank1_rows_def)
  ultimately show "mset rows = mset (map (\<lambda>c. snd (group_winner S ?F c)) (group_keys ?F))"
    by (simp add: comp_def)
qed

lemma rank1_rows_returns:
  "group_keys (quality_filter rm_final) \<noteq> [] \<Longrightarrow> \<exists>rows. rank1_rows S rm_final = Inr rows"
  by (simp add: rank1_rows_def)

lemma rank1_rows_set:
  assumes "rank1_rows S rm_final = Inr rows"
  shows "set rows = (\<lambda>c. snd (group_winner S (quality_filter rm_final) c)) ` set (group_keys (quality_filter rm_final))"
  using mset_eq_setD[OF rank1_rows_mset(2)[OF assms]] by simp

lemma rank1_rows_codes:
  assumes "rank1_rows S rm_final = Inr rows"
  shows "mset (map rm_id_final rows) = mset (map Some (group_keys (quality_filter rm_final)))"
proof -
  have "mset (map rm_id_final rows)
      = mset (map rm_id_final (map (\<lambda>c. snd (group_winner S (quality_filter rm_final) c))
               (group_keys (quality_filter rm_final))))"
    using rank1_rows_mset(2)[OF assms] by (metis mset_map)
  also have "map rm_id_final (map (\<lambda>c. snd (group_winner S (quality_filter rm_final) c))
               (group_keys (quality_filter rm_final))) = map Some (group_keys (quality_filter rm_final))"
    by (simp add: group_winner_code)
  finally show ?thesis .
qed

lemma filter_eq_distinct: "distinct ks \<Longrightarrow> c \<in> set ks \<Longrightarrow> filter (\<lambda>k. k = c) ks = [c]"
  by (induction ks) (auto simp: filter_empty_conv)

lemma filter_code_rank1_rows:
  assumes "rank1_rows S rm_final = Inr rows" and "c \<in> set (group_keys (quality_filter rm_final))"
  shows "filter (\<lambda>r. rm_id_final r = Some c) rows = [snd (group_winner S (quality_filter rm_final) c)]"
proof -
  let ?F = "quality_filter rm_final"
  let ?w = "\<lambda>c. snd (group_winner S ?F c)"
  have "filter (\<lambda>r. rm_id_final r = Some c) (map ?w (group_keys ?F))
      = map ?w (filter (\<lambda>k. k = c) (group_keys ?F))"
    unfolding filter_map comp_def
    by (rule arg_cong[where f = "map ?w"], rule filter_cong) (auto simp: group_winner_code)
  then have "filter (\<lambda>r. rm_id_final r = Some c) (map ?w (group_keys ?F)) = [?w c]"
    using assms(2) by (simp add: filter_eq_distinct distinct_group_keys)
  moreover have "mset (filter (\<lambda>r. rm_id_final r = Some c) rows)
      = mset (filter (\<lambda>r. rm_id_final r = Some c) (map ?w (group_keys ?F)))"
    using rank1_rows_mset(2)[OF assms(1)] by (metis mset_filter)
  ultimately have "mset (filter (\<lambda>r. rm_id_final r = Some c) rows) = mset [?w c]"
    by (simp only:)
  then show ?thesis
    by (metis mset_single_iff mset.simps(1) mset.simps(2) add_mset_add_single union_mset_add_mset_left empty_neutral(1))
qed

lemma rank1_rows_subset:
  assumes "rank1_rows S rm_final = Inr rows" and "r \<in> set rows"
  shows "r \<in> set (quality_filter rm_final)"
  using assms group_winner_row_in by (auto simp: rank1_rows_set get_group_def)

lemma rm_clean_D:
  assumes "rm_clean S rm_final = Inr out"
  shows "\<exists>rows. rank1_rows S rm_final = Inr rows \<and> out = map to_out_row rows"
  using assms by (auto simp: rm_clean_def split: sum.splits)

lemma example_rank1_rows: "rank1_rows stable_sorter example_rm_final = Inr [ex_c, ex_e]"
  by code_simp

lemma example_rm_clean: "rm_clean stable_sorter example_rm_final = Inr [to_out_row ex_c, to_out_row ex_e]"
  by (simp add: rm_clean_def example_rank1_rows)

text \<open>
  Claim C1. In every run that returns an export, whatever order the sort gives to rows
  with equal keys, no entity code occurs twice in the export: the codes of the exported
  rows are pairwise distinct, and for every exported row exactly one row of the export
  carries its code.
\<close>

theorem export_one_row_per_entity_code:
  assumes "rm_clean S rm_final = Inr out"
  shows "distinct (map pr_codenum out) \<and>
         (\<forall>e \<in> set out. length (filter (\<lambda>x. pr_codenum x = pr_codenum e) out) = 1)"
proof -
  from rm_clean_D[OF assms] obtain rows where
    rows: "rank1_rows S rm_final = Inr rows" "out = map to_out_row rows" by blast
  have codes: "map pr_codenum out = map rm_id_final rows"
    using rows(2) by (simp add: to_out_row_def comp_def)
  have "distinct (map Some (group_keys (quality_filter rm_final)))"
    by (simp add: distinct_map distinct_group_keys)
  then have d: "distinct (map pr_codenum out)"
    using mset_eq_imp_distinct_iff[OF rank1_rows_codes[OF rows(1)]] codes by simp
  have "length (filter (\<lambda>x. pr_codenum x = pr_codenum e) out) = 1" if "e \<in> set out" for e
  proof -
    have "length (filter (\<lambda>x. pr_codenum x = pr_codenum e) out)
        = length (filter (\<lambda>k. k = pr_codenum e) (map pr_codenum out))"
      by (simp add: filter_map comp_def)
    also have "\<dots> = 1"
      using filter_eq_distinct[OF d, of "pr_codenum e"] that by simp
    finally show ?thesis .
  qed
  with d show ?thesis by blast
qed

theorem export_one_row_per_entity_code_witness:
  "rm_clean stable_sorter example_rm_final = Inr [to_out_row ex_c, to_out_row ex_e] \<and>
   distinct (map pr_codenum [to_out_row ex_c, to_out_row ex_e]) \<and>
   length (filter (\<lambda>x. pr_codenum x = pr_codenum (to_out_row ex_c))
             [to_out_row ex_c, to_out_row ex_e]) = 1"
  using export_one_row_per_entity_code[OF example_rm_clean] example_rm_clean by simp

text \<open>
  Claim C3. In every run that returns an export, every row of the export comes from an
  assignment of \<^verbatim>\<open>rm_final\<close> that is among the rows kept, whose per-document maximum
  similarity is at least 50 or whose final similarity is at least 80, and whose
  sufficiency score is at least 8; an assignment failing this is not among the rows kept.
\<close>

theorem export_rows_pass_quality_filter:
  assumes "rm_clean S rm_final = Inr out" and "e \<in> set out"
  shows "\<exists>r \<in> set rm_final.
           (\<exists>rows. rank1_rows S rm_final = Inr rows \<and> r \<in> set rows) \<and> e = to_out_row r \<and>
           (50 \<le> max_name_similarity r \<or> (\<exists>s. name_similarity_final r = Some s \<and> 80 \<le> s)) \<and>
           (\<exists>c. coa_sufficient_content r = Some c \<and> 8 \<le> c)"
proof -
  from rm_clean_D[OF assms(1)] obtain rows where
    rows: "rank1_rows S rm_final = Inr rows" "out = map to_out_row rows" by blast
  with assms(2) obtain r where r: "r \<in> set rows" "e = to_out_row r" by auto
  then have "r \<in> set rm_final" "passes_quality r"
    using rank1_rows_subset[OF rows(1), of r] by (auto simp: quality_filter_def)
  then show ?thesis
    using r rows(1) by (auto simp: passes_quality_def split: option.splits)
qed

theorem export_rows_pass_quality_filter_witness:
  "rm_clean stable_sorter example_rm_final = Inr [to_out_row ex_c, to_out_row ex_e] \<and>
   to_out_row ex_e \<in> set [to_out_row ex_c, to_out_row ex_e] \<and>
   (\<exists>r \<in> set example_rm_final.
      (\<exists>rows. rank1_rows stable_sorter example_rm_final = Inr rows \<and> r \<in> set rows) \<and>
      to_out_row ex_e = to_out_row r \<and>
      (50 \<le> max_name_similarity r \<or> (\<exists>s. name_similarity_final r = Some s \<and> 80 \<le> s)) \<and>
      (\<exists>c. coa_sufficient_content r = Some c \<and> 8 \<le> c))"
proof -
  have h: "to_out_row ex_e \<in> set [to_out_row ex_c, to_out_row ex_e]" by simp
  show ?thesis
    using export_rows_pass_quality_filter[OF example_rm_clean h] example_rm_clean h by blast
qed

text \<open>
  Claim C10. In every run that returns an export, every row of the export has a non-null
  entity code, and an assignment whose final entity code is null is never among the rows
  kept, whether or not it passes the quality filter: grouping by the code leaves rows
  with a null key out of every group.
\<close>

theorem export_code_never_null:
  assumes "rm_clean S rm_final = Inr out"
  shows "(\<forall>e \<in> set out. pr_codenum e \<noteq> None) \<and>
         (\<forall>r \<in> set rm_final. rm_id_final r = None \<longrightarrow>
            (\<forall>rows. rank1_rows S rm_final = Inr rows \<longrightarrow> r \<notin> set rows))"
proof -
  have *: "rm_id_final r \<noteq> None" if "rank1_rows S rm_final = Inr rows" "r \<in> set rows" for r rows
    using that group_winner_code by (auto simp: rank1_rows_set)
  from rm_clean_D[OF assms] obtain rows where
    rows: "rank1_rows S rm_final = Inr rows" "out = map to_out_row rows" by blast
  have "pr_codenum e \<noteq> None" if "e \<in> set out" for e
  proof -
    from that rows(2) obtain r where "r \<in> set rows" "e = to_out_row r" by auto
    then show ?thesis using *[OF rows(1), of r] by (simp add: to_out_row_def)
  qed
  moreover have "r \<notin> set rows'" if "rm_id_final r = None" "rank1_rows S rm_final = Inr rows'" for r rows'
    using that *[of rows' r] by blast
  ultimately show ?thesis by blast
qed

theorem export_code_never_null_witness:
  "rm_clean stable_sorter example_rm_final = Inr [to_out_row ex_c, to_out_row ex_e] \<and>
   ex_d \<in> set example_rm_final \<and> passes_quality ex_d \<and> rm_id_final ex_d = None \<and>
   rank1_rows stable_sorter example_rm_final = Inr [ex_c, ex_e] \<and> ex_d \<notin> set [ex_c, ex_e] \<and>
   pr_codenum (to_out_row ex_c) \<noteq> None"
proof -
  have h1: "ex_d \<in> set example_rm_final" by (simp add: example_rm_final_def)
  have h2: "rm_id_final ex_d = None" by (simp add: ex_d_def mk_frow_def)
  have h3: "passes_quality ex_d" by (simp add: passes_quality_def ex_d_def mk_frow_def)
  show ?thesis
    using export_code_never_null[OF example_rm_clean] example_rm_clean example_rank1_rows h1 h2 h3
    by auto
qed

lemma group_winner_cases:
  fixes S :: sorter
  assumes "c \<in> set (group_keys rows)"
  defines "G \<equiv> get_group rows c" and "w \<equiv> snd (group_winner S rows c)"
  shows "(if \<exists>r \<in> set G. manufacture_date r \<noteq> None
          then \<exists>dw. manufacture_date w = Some dw \<and>
                 (\<forall>r \<in> set G. \<forall>d. manufacture_date r = Some d \<longrightarrow> d \<le> dw)
          else if \<exists>r \<in> set G. expiry_date r \<noteq> None
          then \<exists>dw. expiry_date w = Some dw \<and>
                 (\<forall>r \<in> set G. \<forall>d. expiry_date r = Some d \<longrightarrow> d \<le> dw)
          else w = hd G)"
proof -
  let ?I = "get_group_indexed rows c"
  let ?A = "filter (\<lambda>r. manufacture_date (snd r) \<noteq> None) ?I"
  let ?B = "filter (\<lambda>r. manufacture_date (snd r) = None \<and> expiry_date (snd r) \<noteq> None) ?I"
  let ?C = "filter (\<lambda>r. manufacture_date (snd r) = None \<and> expiry_date (snd r) = None) ?I"
  let ?km = "\<lambda>r :: irow. date_key (manufacture_date (snd r))"
  let ?ke = "\<lambda>r :: irow. date_key (expiry_date (snd r))"
  have G: "G = map snd ?I" by (simp add: G_def map_snd_get_group_indexed)
  have ne: "?I \<noteq> []" by (rule get_group_indexed_nonempty[OF assms(1)])
  have w: "w = snd (hd (sort_values_desc S ?km ?A @ sort_values_desc S ?ke ?B @ ?C))"
    by (simp add: w_def group_winner_def combined_order_def)
  show ?thesis
  proof (cases "\<exists>r \<in> set G. manufacture_date r \<noteq> None")
    case True
    then have neA: "?A \<noteq> []" by (auto simp: G filter_empty_conv)
    then have "sort_values_desc S ?km ?A \<noteq> []"
      by (simp only: sort_values_desc_Nil not_False_eq_True)
    then have wA: "w = snd (hd (sort_values_desc S ?km ?A))" using w by simp
    have "hd (sort_values_desc S ?km ?A) \<in> set ?A" by (rule hd_sort_values_desc_in[OF neA])
    then obtain dw where dw: "manufacture_date w = Some dw" using wA by auto
    have "d \<le> dw" if "r \<in> set G" "manufacture_date r = Some d" for r d
    proof -
      from that(1) obtain x where x: "x \<in> set ?I" "r = snd x" by (auto simp: G)
      then have "x \<in> set ?A" using that(2) by simp
      then have "?km x \<le> ?km (hd (sort_values_desc S ?km ?A))" by (rule hd_sort_values_desc_max)
      then show ?thesis using that(2) dw x(2) wA by (simp add: date_key_def)
    qed
    then show ?thesis using True dw by auto
  next
    case noA: False
    then have A: "?A = []" by (auto simp: G filter_empty_conv)
    show ?thesis
    proof (cases "\<exists>r \<in> set G. expiry_date r \<noteq> None")
      case True
      then have neB: "?B \<noteq> []" using noA by (auto simp: G filter_empty_conv)
      then have "sort_values_desc S ?ke ?B \<noteq> []"
        by (simp only: sort_values_desc_Nil not_False_eq_True)
      moreover have "sort_values_desc S ?km ?A = []"
        using A by (simp only: sort_values_desc_Nil)
      ultimately have wB: "w = snd (hd (sort_values_desc S ?ke ?B))" using w by simp
      have "hd (sort_values_desc S ?ke ?B) \<in> set ?B" by (rule hd_sort_values_desc_in[OF neB])
      then obtain dw where dw: "expiry_date w = Some dw" using wB by auto
      have "d \<le> dw" if "r \<in> set G" "expiry_date r = Some d" for r d
      proof -
        from that(1) obtain x where x: "x \<in> set ?I" "r = snd x" by (auto simp: G)
        then have "x \<in> set ?B" using that noA by (auto simp: G)
        then have "?ke x \<le> ?ke (hd (sort_values_desc S ?ke ?B))" by (rule hd_sort_values_desc_max)
        then show ?thesis using that(2) dw x(2) wB by (simp add: date_key_def)
      qed
      then show ?thesis using True noA dw by auto
    next
      case False
      then have B: "?B = []" by (auto simp: G filter_empty_conv)
      have "?C = ?I" using False noA by (auto simp: G filter_id_conv)
      moreover have "sort_values_desc S ?km ?A = []" "sort_values_desc S ?ke ?B = []"
        using A B by (simp_all only: sort_values_desc_Nil)
      ultimately have "w = snd (hd ?I)" using w by simp
      then have "w = hd G" using ne by (simp add: G hd_map)
      then show ?thesis using False noA by simp
    qed
  qed
qed

text \<open>
  Claim C2. For every entity code \<open>c\<close> carried by some quality-filtered assignment, the
  ranking returns, and it keeps exactly one assignment \<open>w\<close> of that group. If some
  assignment of the group has a known manufacture date, \<open>w\<close> has one and no known
  manufacture date of the group is greater; otherwise, if some assignment has a known
  expiry date, \<open>w\<close> has one and no known expiry date of the group is greater; otherwise
  \<open>w\<close> is the first assignment of the group in arrival order.
\<close>

theorem export_prefers_latest_dates:
  fixes S :: sorter
  assumes "r0 \<in> set (quality_filter rm_final)" and "rm_id_final r0 = Some c"
  defines "G \<equiv> get_group (quality_filter rm_final) c"
  shows "\<exists>rows. rank1_rows S rm_final = Inr rows \<and>
           (\<exists>w \<in> set G.
              filter (\<lambda>r. rm_id_final r = Some c) rows = [w] \<and>
              (if \<exists>r \<in> set G. manufacture_date r \<noteq> None
               then \<exists>dw. manufacture_date w = Some dw \<and>
                      (\<forall>r \<in> set G. \<forall>d. manufacture_date r = Some d \<longrightarrow> d \<le> dw)
               else if \<exists>r \<in> set G. expiry_date r \<noteq> None
               then \<exists>dw. expiry_date w = Some dw \<and>
                      (\<forall>r \<in> set G. \<forall>d. expiry_date r = Some d \<longrightarrow> d \<le> dw)
               else w = hd G))"
proof -
  let ?F = "quality_filter rm_final"
  have c: "c \<in> set (group_keys ?F)"
    using assms(1,2) by (auto simp: set_group_keys)
  then have "group_keys ?F \<noteq> []" by auto
  from rank1_rows_returns[OF this] obtain rows where rows: "rank1_rows S rm_final = Inr rows"
    by blast
  let ?w = "snd (group_winner S ?F c)"
  have 1: "?w \<in> set G" unfolding G_def by (rule group_winner_row_in[OF c])
  have 2: "filter (\<lambda>r. rm_id_final r = Some c) rows = [?w]"
    by (rule filter_code_rank1_rows[OF rows c])
  note 3 = group_winner_cases[OF c, of S, folded G_def]
  show ?thesis
    by (rule exI[of _ rows], rule conjI[OF rows], rule bexI[OF _ 1], rule conjI[OF 2 3])
qed

theorem export_prefers_latest_dates_witness:
  "ex_b \<in> set (quality_filter example_rm_final) \<and> rm_id_final ex_b = Some ''RM1'' \<and>
   (\<exists>rows. rank1_rows stable_sorter example_rm_final = Inr rows \<and>
      (\<exists>w \<in> set (get_group (quality_filter example_rm_final) ''RM1'').
         filter (\<lambda>r. rm_id_final r = Some ''RM1'') rows = [w] \<and>
         (\<exists>dw. manufacture_date w = Some dw \<and>
            (\<forall>r \<in> set (get_group (quality_filter example_rm_final) ''RM1'').
               \<forall>d. manufacture_date r = Some d \<longrightarrow> d \<le> dw))))"
proof -
  have h1: "ex_b \<in> set (quality_filter example_rm_final)" by code_simp
  have h2: "rm_id_final ex_b = Some ''RM1''" by (simp add: ex_b_def mk_frow_def)
  have h3: "ex_b \<in> set (get_group (quality_filter example_rm_final) ''RM1'')"
    using h1 h2 by (simp add: get_group_def)
  have "manufacture_date ex_b \<noteq> None" by (simp add: ex_b_def mk_frow_def)
  with h3 have h4: "\<exists>r \<in> set (get_group (quality_filter example_rm_final) ''RM1''). manufacture_date r \<noteq> None"
    by blast
  show ?thesis
    using export_prefers_latest_dates[OF h1 h2, of stable_sorter] h1 h2 h4 by simp
qed

section \<open>Properties of the test-result extraction\<close>

text \<open>
  On an entry whose \<^verbatim>\<open>result\<close> and \<^verbatim>\<open>limit\<close> are strings, the chemical extractor
  follows the order result number, limit number, negative marker, null.
\<close>

lemma extract_chem_info_on_strings:
  assumes "first_match (COMPILED_CHEM key) (env_test_results data) = Inr (Some info)"
    and "result info = JStr res" and "limit info = JStr lmt"
  shows "extract_chem_info data key =
     Inr (case search_number res of
            Some m \<Rightarrow> Some (float_of m)
          | None \<Rightarrow>
              (case search_number lmt of
                 Some m \<Rightarrow> Some (float_of m)
               | None \<Rightarrow> if negative_marker (lower res) then Some 0 else None))"
  using assms by (simp add: extract_chem_info_def split: option.splits)

lemma first_match_is_first:
  "first_match p items = Inr (Some info) \<Longrightarrow>
     \<exists>pre post s. items = pre @ info # post \<and> test info = JStr s \<and> p s \<and>
       (\<forall>e \<in> set pre. \<exists>t. test e = JStr t \<and> \<not> p t)"
proof (induction items)
  case Nil
  then show ?case by simp
next
  case (Cons item items)
  show ?case
  proof (cases "test item")
    case JNull
    with Cons.prems show ?thesis by simp
  next
    case (JStr s)
    show ?thesis
    proof (cases "p s")
      case True
      with JStr Cons.prems have "item = info" by simp
      with JStr True show ?thesis by (intro exI[of _ "[]"] exI[of _ items] exI[of _ s]) simp
    next
      case False
      with JStr Cons.prems have "first_match p items = Inr (Some info)" by simp
      from Cons.IH[OF this] obtain pre post t where
        "items = pre @ info # post" "test info = JStr t" "p t"
        "\<forall>e \<in> set pre. \<exists>t. test e = JStr t \<and> \<not> p t" by blast
      with JStr False show ?thesis
        by (intro exI[of _ "item # pre"] exI[of _ post] exI[of _ t]) simp
    qed
  qed
qed

lemma chem_example_result_before_limit:
  "extract_chem_info
     (mk_env [\<lparr>test = JStr ''Lead (Pb)'', limit = JStr ''5 ppm'', result = JStr ''2.3 ppm''\<rparr>])
     lead_ppm = Inr (Some (23 / 10))"
  by code_simp

text \<open>
  Claim C4. The claim asks, for the first entry matching a chemical category, for the
  first number of its result, else the first number of its limit, else 0.0 when the
  result holds a negative marker, else null. The entry with label \<open>Lead (Pb)\<close>, result
  \<open>Not Detected\<close> and a null limit has no number in either field and a negative marker
  in its result, so the claim asks for 0.0; the search in the null limit raises, which
  \<^verbatim>\<open>extract_field\<close> turns into null. With the limit absent the same entry gives 0.0.
\<close>

theorem chem_null_limit_loses_negative_marker:
  "extract_field
     (const_ext (mk_env [\<lparr>test = JStr ''Lead (Pb)'', limit = JNull, result = JStr ''Not Detected''\<rparr>]))
     [] (\<lambda>d. extract_chem_info d lead_ppm) = None \<and>
   extract_field
     (const_ext (mk_env [\<lparr>test = JStr ''Lead (Pb)'', limit = JStr [], result = JStr ''Not Detected''\<rparr>]))
     [] (\<lambda>d. extract_chem_info d lead_ppm) = Some 0"
  by code_simp

lemma first_match_limit:
  "first_match p (map (\<lambda>e. e\<lparr>limit := f e\<rparr>) items) =
     map_sum id (map_option (\<lambda>e. e\<lparr>limit := f e\<rparr>)) (first_match p items)"
  by (induction items) (auto split: jtext.splits)

text \<open>
  Claim C5, as stated, at a concrete entry: the result of the \<open>E. coli\<close> entry holds no
  number, the first number of its limit is 10, and the microbial extractor returns null,
  not 10.
\<close>

theorem micro_limit_fallback_counterexample:
  "search_number [] = None \<and> search_number ''10 cfu/g'' = Some ''10'' \<and>
   extract_micro_info
     (mk_env [\<lparr>test = JStr ''E. coli'', limit = JStr ''10 cfu/g'', result = JStr []\<rparr>]) e_coli
     = Inr None"
  by code_simp

text \<open>
  Claim C5, amended. For every microbial category the limit field is never consulted:
  replacing the limits of all entries leaves the extracted value unchanged, and when the
  first entry matching the category is \<open>info\<close> the value is the number standing before
  \<open>cfu\<close> in its result if there is one, else 0.0 if its result holds a negative marker,
  else null.
\<close>

theorem micro_extraction_never_reads_limit:
  assumes "first_match (COMPILED_MICRO key) (env_test_results data) = Inr (Some info)"
  shows "extract_micro_info
           (data\<lparr>env_test_results := map (\<lambda>e. e\<lparr>limit := f e\<rparr>) (env_test_results data)\<rparr>) key
         = extract_micro_info data key \<and>
         extract_micro_info data key =
           Inr (case search_number_cfu (result_or_empty info) of
                  Some m \<Rightarrow> Some (float_of m)
                | None \<Rightarrow> if negative_marker (lower (result_or_empty info)) then Some 0 else None)"
proof
  show "extract_micro_info
          (data\<lparr>env_test_results := map (\<lambda>e. e\<lparr>limit := f e\<rparr>) (env_test_results data)\<rparr>) key
        = extract_micro_info data key"
    by (simp add: extract_micro_info_def first_match_limit result_or_empty_def
        split: sum.splits option.splits)
next
  show "extract_micro_info data key =
          Inr (case search_number_cfu (result_or_empty info) of
                 Some m \<Rightarrow> Some (float_of m)
               | None \<Rightarrow> if negative_marker (lower (result_or_empty info)) then Some 0 else None)"
    using assms by (simp add: extract_micro_info_def split: option.splits)
qed

theorem micro_extraction_never_reads_limit_witness:
  "first_match (COMPILED_MICRO e_coli)
     (env_test_results (mk_env [\<lparr>test = JStr ''E. coli'', limit = JNull, result = JStr ''<10 CFU/g''\<rparr>]))
     = Inr (Some \<lparr>test = JStr ''E. coli'', limit = JNull, result = JStr ''<10 CFU/g''\<rparr>) \<and>
   extract_micro_info
     (mk_env [\<lparr>test = JStr ''E. coli'', limit = JNull, result = JStr ''<10 CFU/g''\<rparr>]) e_coli
     = Inr (Some 10)"
proof -
  let ?info = "\<lparr>test = JStr ''E. coli'', limit = JNull, result = JStr ''<10 CFU/g''\<rparr>"
  have h: "first_match (COMPILED_MICRO e_coli) (env_test_results (mk_env [?info])) = Inr (Some ?info)"
    by code_simp
  have v: "search_number_cfu (result_or_empty ?info) = Some ''10''"
    by code_simp
  have f: "float_of ''10'' = 10"
    by code_simp
  show ?thesis
    using micro_extraction_never_reads_limit[OF h] h v f by simp
qed

section \<open>Properties of the fallback match\<close>

lemma best_loop_invariant:
  fixes X pname
  defines "sc \<equiv> \<lambda>row. int (token_set_ratio X pname (py_str (description row)))"
  assumes "xs \<noteq> []"
  shows "\<exists>i < length xs.
           foldl (best_step X pname) (- 1, None) xs = (sc (xs ! i), Some (xs ! i)) \<and>
           (\<forall>j < length xs. sc (xs ! j) \<le> sc (xs ! i)) \<and>
           (\<forall>j < i. sc (xs ! j) < sc (xs ! i))"
  using assms(2)
proof (induction xs rule: rev_induct)
  case Nil
  then show ?case by simp
next
  case (snoc x xs)
  show ?case
  proof (cases "xs = []")
    case True
    have "0 \<le> sc x" by (simp add: sc_def)
    then show ?thesis using True by (simp add: best_step_def sc_def)
  next
    case False
    from snoc.IH[OF False] obtain i where i: "i < length xs"
      and st: "foldl (best_step X pname) (- 1, None) xs = (sc (xs ! i), Some (xs ! i))"
      and mx: "\<forall>j < length xs. sc (xs ! j) \<le> sc (xs ! i)"
      and fst: "\<forall>j < i. sc (xs ! j) < sc (xs ! i)" by blast
    show ?thesis
    proof (cases "sc x > sc (xs ! i)")
      case True
      have "foldl (best_step X pname) (- 1, None) (xs @ [x]) = (sc x, Some x)"
        using st True by (simp add: best_step_def sc_def)
      moreover have "\<forall>j < length (xs @ [x]). sc ((xs @ [x]) ! j) \<le> sc x"
        using mx True by (auto simp: nth_append less_Suc_eq)
      moreover have "\<forall>j < length xs. sc ((xs @ [x]) ! j) < sc x"
        using mx True by (auto simp: nth_append)
      ultimately show ?thesis
        by (intro exI[of _ "length xs"]) simp
    next
      case False
      have "foldl (best_step X pname) (- 1, None) (xs @ [x]) = (sc (xs ! i), Some (xs ! i))"
        using st False by (simp add: best_step_def sc_def)
      moreover have "\<forall>j < length (xs @ [x]). sc ((xs @ [x]) ! j) \<le> sc (xs ! i)"
        using mx False by (auto simp: nth_append less_Suc_eq)
      moreover have "\<forall>j < i. sc ((xs @ [x]) ! j) < sc (xs ! i)"
        using fst i by (auto simp: nth_append)
      ultimately show ?thesis
        using i by (intro exI[of _ i]) (simp add: nth_append)
    qed
  qed
qed

text \<open>
  Claim C6. For a non-empty catalog the fallback returns the entry at the first position
  whose token-set similarity to the product name is greatest: no entry scores higher,
  and every entry listed before it scores strictly lower. The similarity is taken on
  \<^verbatim>\<open>str\<close> of the description; the description returned is the cell itself.
\<close>

theorem find_best_match_first_maximum:
  assumes "rm_df \<noteq> []"
  shows "\<exists>i < length rm_df.
           find_best_match X pname rm_df =
             \<lparr> matched_part_number = part_number (rm_df ! i),
               matched_description = description (rm_df ! i),
               similarity_score = int (token_set_ratio X pname (py_str (description (rm_df ! i)))) \<rparr> \<and>
           (\<forall>j < length rm_df.
              token_set_ratio X pname (py_str (description (rm_df ! j)))
                \<le> token_set_ratio X pname (py_str (description (rm_df ! i)))) \<and>
           (\<forall>j < i.
              token_set_ratio X pname (py_str (description (rm_df ! j)))
                < token_set_ratio X pname (py_str (description (rm_df ! i))))"
proof -
  from best_loop_invariant[OF assms, of X pname] obtain i where
    "i < length rm_df"
    "foldl (best_step X pname) (- 1, None) rm_df =
       (int (token_set_ratio X pname (py_str (description (rm_df ! i)))), Some (rm_df ! i))"
    "\<forall>j < length rm_df. int (token_set_ratio X pname (py_str (description (rm_df ! j))))
        \<le> int (token_set_ratio X pname (py_str (description (rm_df ! i))))"
    "\<forall>j < i. int (token_set_ratio X pname (py_str (description (rm_df ! j))))
        < int (token_set_ratio X pname (py_str (description (rm_df ! i))))"
    by blast
  then show ?thesis
    by (intro exI[of _ i]) (simp add: find_best_match_def)
qed

theorem find_best_match_first_maximum_witness:
  "ex_catalog \<noteq> [] \<and>
   (\<exists>i < length ex_catalog.
      find_best_match (const_ext empty_envelope) ''turmeric extract'' ex_catalog =
        \<lparr> matched_part_number = part_number (ex_catalog ! i),
          matched_description = description (ex_catalog ! i),
          similarity_score =
            int (token_set_ratio (const_ext empty_envelope) ''turmeric extract''
                   (py_str (description (ex_catalog ! i)))) \<rparr> \<and>
      (\<forall>j < length ex_catalog.
         token_set_ratio (const_ext empty_envelope) ''turmeric extract'' (py_str (description (ex_catalog ! j)))
           \<le> token_set_ratio (const_ext empty_envelope) ''turmeric extract''
                (py_str (description (ex_catalog ! i)))) \<and>
      (\<forall>j < i.
         token_set_ratio (const_ext empty_envelope) ''turmeric extract'' (py_str (description (ex_catalog ! j)))
           < token_set_ratio (const_ext empty_envelope) ''turmeric extract''
               (py_str (description (ex_catalog ! i)))))"
proof -
  have h: "ex_catalog \<noteq> []" by (simp add: ex_catalog_def)
  show ?thesis
    using find_best_match_first_maximum[OF h, of "const_ext empty_envelope" "''turmeric extract''"] h
    by blast
qed

lemma find_best_match_example:
  "find_best_match (const_ext empty_envelope) ''turmeric extract'' ex_catalog =
     \<lparr> matched_part_number = Some ''RM2'', matched_description = Some ''turmeric extract'',
       similarity_score = 100 \<rparr>"
  by code_simp

section \<open>Properties of the per-document winner\<close>

lemma list_max_ge: "x \<in> set xs \<Longrightarrow> x \<le> list_max xs"
  by (induction xs rule: list_max.induct) auto

lemma list_max_in: "xs \<noteq> [] \<Longrightarrow> list_max xs \<in> set xs"
  by (induction xs rule: list_max.induct) (auto simp: max_def)

lemma rank1_eq_1:
  "rank1 rows i = 1 \<longleftrightarrow>
     (\<forall>j < length rows. filename (rows ! j) = filename (rows ! i) \<longrightarrow>
        \<not> name_similarity (rows ! i) < name_similarity (rows ! j) \<and>
        \<not> (name_similarity (rows ! j) = name_similarity (rows ! i) \<and> j < i))"
  by (auto simp: rank1_def filter_empty_conv)

lemma rank1_D:
  assumes "rank1 rows i = 1" "j < length rows" "filename (rows ! j) = filename (rows ! i)"
  shows "\<not> name_similarity (rows ! i) < name_similarity (rows ! j)"
    and "\<not> (name_similarity (rows ! j) = name_similarity (rows ! i) \<and> j < i)"
  using assms unfolding rank1_eq_1 by blast+

lemma rank1_is_file_max:
  assumes "i < length rows" and "rank1 rows i = 1"
  shows "name_similarity (rows ! i) = file_max rows (filename (rows ! i))"
proof -
  let ?f = "filename (rows ! i)"
  let ?sims = "map name_similarity (filter (\<lambda>r. filename r = ?f) rows)"
  have mem: "name_similarity (rows ! i) \<in> set ?sims"
    using assms(1) by auto
  then have le: "name_similarity (rows ! i) \<le> file_max rows ?f"
    unfolding file_max_def by (rule list_max_ge)
  have "?sims \<noteq> []" using mem by (metis empty_iff empty_set)
  then have "file_max rows ?f \<in> set ?sims"
    unfolding file_max_def by (rule list_max_in)
  then obtain r where r: "r \<in> set rows" "filename r = ?f" "name_similarity r = file_max rows ?f"
    by auto
  then obtain j where j: "j < length rows" "rows ! j = r"
    by (auto simp: in_set_conv_nth)
  have "\<not> name_similarity (rows ! i) < name_similarity (rows ! j)"
    using rank1_D(1)[OF assms(2) j(1)] j(2) r(2) by simp
  with r(3) j(2) le show ?thesis by simp
qed

lemma rank1_unique:
  assumes "i < length rows" "j < length rows"
    and "filename (rows ! i) = filename (rows ! j)"
    and "rank1 rows i = 1" "rank1 rows j = 1"
  shows "i = j"
proof -
  have a: "\<not> name_similarity (rows ! i) < name_similarity (rows ! j)"
    "\<not> (name_similarity (rows ! j) = name_similarity (rows ! i) \<and> j < i)"
    using rank1_D[OF assms(4) assms(2)] assms(3) by simp_all
  have b: "\<not> name_similarity (rows ! j) < name_similarity (rows ! i)"
    "\<not> (name_similarity (rows ! i) = name_similarity (rows ! j) \<and> i < j)"
    using rank1_D[OF assms(5) assms(1)] assms(3) by simp_all
  from a b show ?thesis by auto
qed

lemma rank1_exists:
  assumes "r \<in> set rows"
  shows "\<exists>i < length rows. filename (rows ! i) = filename r \<and> rank1 rows i = 1"
proof -
  let ?f = "filename r"
  let ?sims = "map name_similarity (filter (\<lambda>r. filename r = ?f) rows)"
  have "?sims \<noteq> []" using assms by (auto simp: filter_empty_conv)
  then have "file_max rows ?f \<in> set ?sims"
    unfolding file_max_def by (rule list_max_in)
  then obtain r' where "r' \<in> set rows" "filename r' = ?f" "name_similarity r' = file_max rows ?f"
    by auto
  then have ex: "\<exists>k. k < length rows \<and> filename (rows ! k) = ?f \<and>
      name_similarity (rows ! k) = file_max rows ?f"
    by (auto simp: in_set_conv_nth)
  define i where "i = (LEAST k. k < length rows \<and> filename (rows ! k) = ?f \<and>
      name_similarity (rows ! k) = file_max rows ?f)"
  have i: "i < length rows" "filename (rows ! i) = ?f" "name_similarity (rows ! i) = file_max rows ?f"
    using LeastI_ex[OF ex] unfolding i_def by blast+
  have least: "i \<le> k" if "k < length rows" "filename (rows ! k) = ?f"
      "name_similarity (rows ! k) = file_max rows ?f" for k
    unfolding i_def using that by (intro Least_le) simp
  have "rank1 rows i = 1"
    unfolding rank1_eq_1
  proof (intro allI impI conjI)
    fix j assume j: "j < length rows" "filename (rows ! j) = filename (rows ! i)"
    then have "name_similarity (rows ! j) \<in> set ?sims" using i(2) by auto
    then have "name_similarity (rows ! j) \<le> file_max rows ?f"
      unfolding file_max_def by (rule list_max_ge)
    then show "\<not> name_similarity (rows ! i) < name_similarity (rows ! j)"
      using i(3) by simp
    show "\<not> (name_similarity (rows ! j) = name_similarity (rows ! i) \<and> j < i)"
      using least[of j] j i by auto
  qed
  with i show ?thesis by blast
qed

lemma rank1_is_greatest:
  assumes "i < length rows" "rank1 rows i = 1" "r \<in> set rows" "filename r = filename (rows ! i)"
  shows "name_similarity r \<le> name_similarity (rows ! i)"
proof -
  have "name_similarity r \<in> set (map name_similarity (filter (\<lambda>r. filename r = filename (rows ! i)) rows))"
    using assms(3,4) by auto
  then have "name_similarity r \<le> file_max rows (filename (rows ! i))"
    unfolding file_max_def by (rule list_max_ge)
  then show ?thesis using rank1_is_file_max[OF assms(1,2)] by simp
qed

section \<open>Properties of the final assignment\<close>

lemma mk_mrow_sims:
  "name_similarity (mk_mrow X r m1 m2) = max (name_similarity1 (mk_mrow X r m1 m2)) (name_similarity2 (mk_mrow X r m1 m2))"
  "0 \<le> name_similarity (mk_mrow X r m1 m2)"
  "filename (mk_mrow X r m1 m2) = filename r"
  by (simp_all add: mk_mrow_def Let_def)

lemma merged_extracted_df2_D:
  assumes "merged_extracted_df2 X order_df cands = Inr rows2" and "r \<in> set rows2"
  shows "\<exists>c \<in> set cands. \<exists>m1 \<in> set (lookup_order order_df (lot_number_clean (lot_number c))).
           \<exists>m2 \<in> set (lookup_order order_df (m_number_clean (m_number c))). r = mk_mrow X c m1 m2"
proof -
  have "rows2 = concat (map (merge_order X order_df) cands)"
    using assms(1) by (simp add: merged_extracted_df2_def split: if_splits)
  with assms(2) obtain c where c: "c \<in> set cands" "r \<in> set (merge_order X order_df c)"
    by auto
  from c(2) obtain m1 m2 where
    "m1 \<in> set (lookup_order order_df (lot_number_clean (lot_number c)))"
    "m2 \<in> set (lookup_order order_df (m_number_clean (m_number c)))" "r = mk_mrow X c m1 m2"
    unfolding merge_order_def by auto
  with c(1) show ?thesis by blast
qed

lemma merged_extracted_df2_sims:
  assumes "merged_extracted_df2 X order_df cands = Inr rows2" and "r \<in> set rows2"
  shows "name_similarity r = max (name_similarity1 r) (name_similarity2 r)" and "0 \<le> name_similarity r"
proof -
  from merged_extracted_df2_D[OF assms] obtain c m1 m2 where "r = mk_mrow X c m1 m2"
    by blast
  then show "name_similarity r = max (name_similarity1 r) (name_similarity2 r)" "0 \<le> name_similarity r"
    using mk_mrow_sims(1,2)[of X c m1 m2] by simp_all
qed

lemma merge_unmatched_fields:
  assumes "r3 \<in> set (merge_unmatched U r2)"
  shows "filename r3 = filename r2" "name_similarity r3 = name_similarity r2"
    "name_similarity1 r3 = name_similarity1 r2" "name_similarity2 r3 = name_similarity2 r2"
    "json_values r3 = json_values r2" "lot_number r3 = lot_number r2" "m_number r3 = m_number r2"
    "rm_code1 r3 = rm_code1 r2" "rm_name1 r3 = rm_name1 r2"
    "rm_code2 r3 = rm_code2 r2" "rm_name2 r3 = rm_name2 r2"
  using assms by (auto simp: merge_unmatched_def mk_mrow3_def Let_def split: if_splits)

lemma merge_unmatched_nonempty: "merge_unmatched U r2 \<noteq> []"
  by (simp add: merge_unmatched_def Let_def)

lemma merged_extracted_df3_eq:
  assumes "merged_extracted_df3 X rm_df rows2 = Inr rows3"
  shows "rows3 = concat (map (merge_unmatched (unmatched_file_merged X rm_df rows2)) rows2)"
  using assms by (simp add: merged_extracted_df3_def split: if_splits)

lemma merged_extracted_df3_source:
  assumes "merged_extracted_df3 X rm_df rows2 = Inr rows3" and "r3 \<in> set rows3"
  shows "\<exists>r2 \<in> set rows2. r3 \<in> set (merge_unmatched (unmatched_file_merged X rm_df rows2) r2)"
  using assms(2) unfolding merged_extracted_df3_eq[OF assms(1)] by auto

lemma merged_extracted_df3_image:
  assumes "merged_extracted_df3 X rm_df rows2 = Inr rows3" and "r2 \<in> set rows2"
  shows "\<exists>r3 \<in> set rows3. r3 \<in> set (merge_unmatched (unmatched_file_merged X rm_df rows2) r2)"
proof -
  let ?U = "unmatched_file_merged X rm_df rows2"
  obtain r3 where r3: "r3 \<in> set (merge_unmatched ?U r2)"
    using merge_unmatched_nonempty[of ?U r2] by (meson last_in_set)
  then have "r3 \<in> set rows3"
    using assms(2) unfolding merged_extracted_df3_eq[OF assms(1)] by auto
  then show ?thesis using r3 by blast
qed

lemma merged_extracted_df4_D:
  assumes "(r, mx) \<in> set (merged_extracted_df4 rows)"
  shows "\<exists>i < length rows. r = rows ! i \<and> rank1 rows i = 1 \<and> mx = file_max rows (filename r)"
  using assms by (auto simp: merged_extracted_df4_def)

text \<open>When the greatest exact similarity of a file is zero, its rows carry a fallback match.\<close>

lemma unmatched_has_fallback:
  assumes eq: "merged_extracted_df3 X rm_df rows2 = Inr rows3" and r3: "r3 \<in> set rows3"
    and nonneg: "\<forall>r \<in> set rows2. 0 \<le> name_similarity r"
    and zero: "file_max rows3 (filename r3) = 0"
  shows "\<exists>r' \<in> set rows2. filename r' = filename r3 \<and>
           rm_code3 r3 = matched_part_number (find_best_match X (clean_product_name r') rm_df) \<and>
           rm_name3 r3 = matched_description (find_best_match X (clean_product_name r') rm_df) \<and>
           name_similarity3 r3 = Some (similarity_score (find_best_match X (clean_product_name r') rm_df))"
proof -
  let ?U = "unmatched_file_merged X rm_df rows2"
  let ?rows3 = rows3
  let ?f = "filename r3"
  from merged_extracted_df3_source[OF eq r3] obtain r2 where
    r2: "r2 \<in> set rows2" "r3 \<in> set (merge_unmatched ?U r2)" by blast
  have f2: "filename r2 = ?f" using merge_unmatched_fields(1)[OF r2(2)] by simp
  have sim0: "name_similarity r = 0" if "r \<in> set rows2" "filename r = ?f" for r
  proof -
    from merged_extracted_df3_image[OF eq that(1)] obtain q where
      q0: "q \<in> set ?rows3" "q \<in> set (merge_unmatched ?U r)" by blast
    have q: "q \<in> set ?rows3" "filename q = filename r" "name_similarity q = name_similarity r"
      using q0 merge_unmatched_fields(1,2)[OF q0(2)] by simp_all
    then have "q \<in> set (filter (\<lambda>r. filename r = ?f) ?rows3)"
      using that(2) by simp
    then have "name_similarity q \<in> set (map name_similarity (filter (\<lambda>r. filename r = ?f) ?rows3))"
      by (simp only: set_map) (rule imageI)
    then have "name_similarity q \<le> file_max ?rows3 ?f"
      unfolding file_max_def by (rule list_max_ge)
    with zero q(3) nonneg that(1) show ?thesis by force
  qed
  let ?k = "(filename r2, clean_product_name r2)"
  let ?grp = "filter (\<lambda>r. (filename r, clean_product_name r) = ?k) rows2"
  have "map name_similarity ?grp \<noteq> []" using r2(1) by (auto simp: filter_empty_conv)
  then have "list_max (map name_similarity ?grp) \<in> set (map name_similarity ?grp)"
    by (rule list_max_in)
  then have g0: "list_max (map name_similarity ?grp) = 0"
    using sim0 f2 by auto
  have "?k \<in> set (sort (remdups (map (\<lambda>r. (filename r, clean_product_name r)) rows2)))"
    using r2(1) by auto
  then have "(fst ?k, snd ?k, list_max (map name_similarity ?grp)) \<in> set (grouped_df rows2)"
    unfolding grouped_df_def by (intro image_eqI[where x = ?k, THEN subst[OF set_map[symmetric], of "\<lambda>S. _ \<in> S"]]) simp_all
  then have "(filename r2, clean_product_name r2, 0) \<in> set (grouped_df rows2)"
    using g0 by simp
  then have "(filename r2, find_best_match X (clean_product_name r2) rm_df) \<in> set ?U"
    unfolding unmatched_file_merged_def by force
  then have hits: "filter (\<lambda>u. fst u = filename r2) ?U \<noteq> []"
    by (force simp: filter_empty_conv)
  with r2(2) obtain u where u: "u \<in> set ?U" "fst u = filename r2"
    "r3 = mk_mrow3 r2 (matched_part_number (snd u)) (matched_description (snd u)) (Some (similarity_score (snd u)))"
    by (auto simp: merge_unmatched_def Let_def)
  from u(1) obtain g where g: "g \<in> set (grouped_df rows2)" "u = (fst g, find_best_match X (fst (snd g)) rm_df)"
    by (auto simp: unmatched_file_merged_def)
  from g(1) obtain r' where r': "r' \<in> set rows2" "fst g = filename r'" "fst (snd g) = clean_product_name r'"
    by (auto simp: grouped_df_def)
  have "filename r' = ?f" using r'(2) g(2) u(2) f2 by simp
  moreover have "rm_code3 r3 = matched_part_number (find_best_match X (clean_product_name r') rm_df)"
    "rm_name3 r3 = matched_description (find_best_match X (clean_product_name r') rm_df)"
    "name_similarity3 r3 = Some (similarity_score (find_best_match X (clean_product_name r') rm_df))"
    using u(3) g(2) r'(3) by (simp_all add: mk_mrow3_def)
  ultimately show ?thesis using r'(1) by blast
qed

lemma matched_rows_D:
  assumes "matched_rows X order_df rm_df docs = Inr rows"
  shows "\<exists>rows2. exact_rows X order_df docs = Inr rows2 \<and> merged_extracted_df3 X rm_df rows2 = Inr rows"
  using assms by (auto simp: matched_rows_def split: sum.splits)

lemma exact_rows_D:
  assumes "exact_rows X order_df docs = Inr rows2"
  shows "\<exists>rows1. extracted_df3 X docs = Inr rows1 \<and>
           merged_extracted_df2 X order_df (extracted_df4 X rows1) = Inr rows2"
  using assms by (auto simp: exact_rows_def split: sum.splits)

text \<open>
  Claim C7. Take a run that reaches the ranking and the winning row \<open>r\<close> of a document,
  with \<open>mx\<close> its \<^verbatim>\<open>max_name_similarity\<close>. Then \<open>mx\<close> is the greatest exact-match
  similarity among the rows of the file: it is the similarity of \<open>r\<close>, the larger of its
  two exact similarities, and no row of the file exceeds it. When \<open>mx\<close> is zero the final
  code, name and similarity are those of the fallback columns, which hold the result of
  \<^verbatim>\<open>find_best_match\<close> for a clean product name of the file; when \<open>mx\<close> is not zero,
  however small, the final code and name are those of an exact match whose similarity
  is \<open>mx\<close>, the final similarity is \<open>mx\<close>, and the fallback columns are not used.
\<close>

theorem fallback_used_iff_exact_similarity_zero:
  assumes "matched_rows X order_df rm_df docs = Inr rows"
    and "(r, mx) \<in> set (merged_extracted_df4 rows)"
  shows "r \<in> set rows \<and> name_similarity r = mx \<and>
         mx = max (name_similarity1 r) (name_similarity2 r) \<and>
         (\<forall>q \<in> set rows. filename q = filename r \<longrightarrow> name_similarity q \<le> mx) \<and>
         max_name_similarity (final_row (r, mx) score) = mx \<and>
         (mx = 0 \<longrightarrow>
            rm_id_final (final_row (r, mx) score) = rm_code3 r \<and>
            rm_name_final (final_row (r, mx) score) = rm_name3 r \<and>
            name_similarity_final (final_row (r, mx) score) = name_similarity3 r \<and>
            (\<exists>rows2 r'. exact_rows X order_df docs = Inr rows2 \<and> r' \<in> set rows2 \<and>
               filename r' = filename r \<and>
               rm_code3 r = matched_part_number (find_best_match X (clean_product_name r') rm_df) \<and>
               rm_name3 r = matched_description (find_best_match X (clean_product_name r') rm_df) \<and>
               name_similarity3 r =
                 Some (similarity_score (find_best_match X (clean_product_name r') rm_df)))) \<and>
         (mx \<noteq> 0 \<longrightarrow>
            name_similarity_final (final_row (r, mx) score) = Some mx \<and>
            ((rm_id_final (final_row (r, mx) score) = rm_code1 r \<and>
              rm_name_final (final_row (r, mx) score) = rm_name1 r \<and> name_similarity1 r = mx) \<or>
             (rm_id_final (final_row (r, mx) score) = rm_code2 r \<and>
              rm_name_final (final_row (r, mx) score) = rm_name2 r \<and> name_similarity2 r = mx)))"
proof -
  from matched_rows_D[OF assms(1)] obtain rows2 where
    rows2: "exact_rows X order_df docs = Inr rows2" "merged_extracted_df3 X rm_df rows2 = Inr rows"
    by blast
  from exact_rows_D[OF rows2(1)] obtain rows1 where
    rows1: "merged_extracted_df2 X order_df (extracted_df4 X rows1) = Inr rows2" by blast
  from merged_extracted_df4_D[OF assms(2)] obtain i where
    i: "i < length rows" "r = rows ! i" "rank1 rows i = 1" "mx = file_max rows (filename r)"
    by blast
  have mem: "r \<in> set rows" using i(1,2) by simp
  have sim: "name_similarity r = mx"
    using rank1_is_file_max[OF i(1,3)] i(2,4) by simp
  have great: "\<forall>q \<in> set rows. filename q = filename r \<longrightarrow> name_similarity q \<le> mx"
    using rank1_is_greatest[OF i(1,3)] i(2) sim by simp
  from merged_extracted_df3_source[OF rows2(2) mem] obtain r2 where
    r2: "r2 \<in> set rows2" "r \<in> set (merge_unmatched (unmatched_file_merged X rm_df rows2) r2)"
    by blast
  have "name_similarity r2 = max (name_similarity1 r2) (name_similarity2 r2)"
    by (rule merged_extracted_df2_sims(1)[OF rows1 r2(1)])
  then have mx12: "name_similarity r = max (name_similarity1 r) (name_similarity2 r)"
    using merge_unmatched_fields(2,3,4)[OF r2(2)] by simp
  have nonneg: "\<forall>q \<in> set rows2. 0 \<le> name_similarity q"
    using merged_extracted_df2_sims(2)[OF rows1] by blast
  have zero: "mx = 0 \<Longrightarrow>
      \<exists>rows2 r'. exact_rows X order_df docs = Inr rows2 \<and> r' \<in> set rows2 \<and> filename r' = filename r \<and>
        rm_code3 r = matched_part_number (find_best_match X (clean_product_name r') rm_df) \<and>
        rm_name3 r = matched_description (find_best_match X (clean_product_name r') rm_df) \<and>
        name_similarity3 r = Some (similarity_score (find_best_match X (clean_product_name r') rm_df))"
  proof -
    assume "mx = 0"
    then have "file_max rows (filename r) = 0" using i(4) by simp
    from unmatched_has_fallback[OF rows2(2) mem nonneg this] obtain r' where
      "r' \<in> set rows2" "filename r' = filename r"
      "rm_code3 r = matched_part_number (find_best_match X (clean_product_name r') rm_df)"
      "rm_name3 r = matched_description (find_best_match X (clean_product_name r') rm_df)"
      "name_similarity3 r = Some (similarity_score (find_best_match X (clean_product_name r') rm_df))"
      by blast
    with rows2(1) show ?thesis by blast
  qed
  have fields: "max_name_similarity (final_row (r, mx) score) = mx"
    "mx = 0 \<Longrightarrow> rm_id_final (final_row (r, mx) score) = rm_code3 r"
    "mx = 0 \<Longrightarrow> rm_name_final (final_row (r, mx) score) = rm_name3 r"
    "mx = 0 \<Longrightarrow> name_similarity_final (final_row (r, mx) score) = name_similarity3 r"
    "mx \<noteq> 0 \<Longrightarrow> name_similarity_final (final_row (r, mx) score) = Some mx"
    by (simp_all add: final_row_def)
  have exact: "(rm_id_final (final_row (r, mx) score) = rm_code1 r \<and>
                rm_name_final (final_row (r, mx) score) = rm_name1 r \<and> name_similarity1 r = mx) \<or>
               (rm_id_final (final_row (r, mx) score) = rm_code2 r \<and>
                rm_name_final (final_row (r, mx) score) = rm_name2 r \<and> name_similarity2 r = mx)"
    if "mx \<noteq> 0"
  proof (cases "name_similarity1 r = name_similarity r")
    case True
    then show ?thesis using that sim by (simp add: final_row_def)
  next
    case False
    then have "name_similarity2 r = name_similarity r" using mx12 by (simp add: max_def split: if_splits)
    then show ?thesis using that sim False by (simp add: final_row_def)
  qed
  have m12: "mx = max (name_similarity1 r) (name_similarity2 r)" using mx12 sim by simp
  show ?thesis
    using mem sim m12 great fields zero exact by blast
qed

lemma example_matched_rows:
  "matched_rows ex_ext ex_order_df ex_catalog ex_docs
     = Inr (projr (matched_rows ex_ext ex_order_df ex_catalog ex_docs))"
  by code_simp

theorem fallback_used_iff_exact_similarity_zero_witness:
  "matched_rows ex_ext ex_order_df ex_catalog ex_docs
     = Inr (projr (matched_rows ex_ext ex_order_df ex_catalog ex_docs)) \<and>
   merged_extracted_df4 (projr (matched_rows ex_ext ex_order_df ex_catalog ex_docs)) ! 0
     \<in> set (merged_extracted_df4 (projr (matched_rows ex_ext ex_order_df ex_catalog ex_docs))) \<and>
   snd (merged_extracted_df4 (projr (matched_rows ex_ext ex_order_df ex_catalog ex_docs)) ! 0) = 100 \<and>
   name_similarity_final
     (final_row (merged_extracted_df4 (projr (matched_rows ex_ext ex_order_df ex_catalog ex_docs)) ! 0) None)
     = Some 100 \<and>
   rm_id_final (final_row (merged_extracted_df4 (projr (matched_rows ex_ext ex_order_df ex_catalog ex_docs)) ! 0) None)
     = Some ''RM9'' \<and>
   name_similarity1 (fst (merged_extracted_df4 (projr (matched_rows ex_ext ex_order_df ex_catalog ex_docs)) ! 0))
     = 100 \<and>
   merged_extracted_df4 (projr (matched_rows ex_ext ex_order_df ex_catalog ex_docs)) ! 1
     \<in> set (merged_extracted_df4 (projr (matched_rows ex_ext ex_order_df ex_catalog ex_docs))) \<and>
   snd (merged_extracted_df4 (projr (matched_rows ex_ext ex_order_df ex_catalog ex_docs)) ! 1) = 0 \<and>
   rm_id_final (final_row (merged_extracted_df4 (projr (matched_rows ex_ext ex_order_df ex_catalog ex_docs)) ! 1) None)
     = rm_code3 (fst (merged_extracted_df4 (projr (matched_rows ex_ext ex_order_df ex_catalog ex_docs)) ! 1)) \<and>
   rm_id_final (final_row (merged_extracted_df4 (projr (matched_rows ex_ext ex_order_df ex_catalog ex_docs)) ! 1) None)
     = Some ''RM1''"
proof -
  let ?w = "merged_extracted_df4 (projr (matched_rows ex_ext ex_order_df ex_catalog ex_docs))"
  have len: "length ?w = 3" by code_simp
  have m0: "?w ! 0 \<in> set ?w" and m1: "?w ! 1 \<in> set ?w"
    using len by simp_all
  have p0: "(fst (?w ! 0), 100) \<in> set ?w"
  proof -
    have "snd (?w ! 0) = 100" by code_simp
    then have "(fst (?w ! 0), 100) = ?w ! 0" by (metis prod.collapse)
    then show ?thesis using m0 by (simp only:)
  qed
  have p1: "(fst (?w ! 1), 0) \<in> set ?w"
  proof -
    have "snd (?w ! 1) = 0" by code_simp
    then have "(fst (?w ! 1), 0) = ?w ! 1" by (metis prod.collapse)
    then show ?thesis using m1 by (simp only:)
  qed
  have z0: "snd (?w ! 0) = 100" by code_simp
  have z1: "snd (?w ! 1) = 0" by code_simp
  have e0: "?w ! 0 = (fst (?w ! 0), 100)" using z0 by (metis prod.collapse)
  have e1: "?w ! 1 = (fst (?w ! 1), 0)" using z1 by (metis prod.collapse)
  have c0: "rm_id_final (final_row (?w ! 0) None) = Some ''RM9''" by code_simp
  have c1: "rm_id_final (final_row (?w ! 1) None) = Some ''RM1''" by code_simp
  have s0: "name_similarity1 (fst (?w ! 0)) = 100" by code_simp
  have "name_similarity_final (final_row (fst (?w ! 0), 100) None) = Some 100"
    using fallback_used_iff_exact_similarity_zero[OF example_matched_rows p0, of None] by simp
  then have f0: "name_similarity_final (final_row (?w ! 0) None) = Some 100"
    using e0 by (simp only:)
  have "rm_id_final (final_row (fst (?w ! 1), 0) None) = rm_code3 (fst (?w ! 1))"
    using fallback_used_iff_exact_similarity_zero[OF example_matched_rows p1, of None] by simp
  then have f1: "rm_id_final (final_row (?w ! 1) None) = rm_code3 (fst (?w ! 1))"
    using e1 by (simp only:)
  show ?thesis
    apply (intro conjI)
             apply (rule example_matched_rows)
            apply (rule m0)
           apply (rule z0)
          apply (rule f0)
         apply (rule c0)
        apply (rule s0)
       apply (rule m1)
      apply (rule z1)
     apply (rule f1)
    apply (rule c1)
    done
qed

section \<open>Candidate rows of a document\<close>

lemma collect_Inr_mem:
  assumes "collect f xs = Inr ys" and "x \<in> set xs"
  shows "\<exists>zs. f x = Inr zs \<and> set zs \<subseteq> set ys"
  using assms
proof (induction xs arbitrary: ys)
  case Nil
  then show ?case by simp
next
  case (Cons a xs)
  from Cons.prems(1) obtain as bs where
    ab: "f a = Inr as" "collect f xs = Inr bs" "ys = as @ bs"
    by (auto split: sum.splits)
  show ?case
  proof (cases "x = a")
    case True
    then show ?thesis using ab by auto
  next
    case False
    then have "x \<in> set xs" using Cons.prems(2) by simp
    from Cons.IH[OF ab(2) this] show ?thesis using ab(3) by auto
  qed
qed

lemma collect_Inr_source:
  assumes "collect f xs = Inr ys" and "y \<in> set ys"
  shows "\<exists>x \<in> set xs. \<exists>zs. f x = Inr zs \<and> y \<in> set zs"
  using assms
proof (induction xs arbitrary: ys)
  case Nil
  then show ?case by simp
next
  case (Cons a xs)
  from Cons.prems(1) obtain as bs where
    ab: "f a = Inr as" "collect f xs = Inr bs" "ys = as @ bs"
    by (auto split: sum.splits)
  show ?case
  proof (cases "y \<in> set as")
    case True
    then show ?thesis using ab(1) by auto
  next
    case False
    then have "y \<in> set bs" using Cons.prems(2) ab(3) by simp
    from Cons.IH[OF ab(2) this] show ?thesis by auto
  qed
qed

lemma explode_document_two_lots:
  assumes "lot_numbers X doc = Inr lots"
    and "concat (map (\<lambda>v. case v of None \<Rightarrow> [] | Some s \<Rightarrow> [s]) lots) = [a, b]"
    and "dedupe (findall_M (strip_non_word (doc_filename_clean doc))) = [m]"
  shows "explode_document X doc =
           Inr [(doc, clean_and_extract_lot a, Some m), (doc, clean_and_extract_lot b, Some m)]"
  using assms by (simp add: explode_document_def lot_number_col_def m_numbers_def)

lemma lookup_order_nonempty: "lookup_order order_df k \<noteq> []"
  by (simp add: lookup_order_def Let_def)

lemma extracted_df4_row_fields:
  "filename (extracted_df4_row X (doc, lot, m)) = doc_filename doc"
  "json_values (extracted_df4_row X (doc, lot, m)) = doc_json_values doc"
  "lot_number (extracted_df4_row X (doc, lot, m)) = lot"
  "m_number (extracted_df4_row X (doc, lot, m)) = m"
  by (simp_all add: extracted_df4_row_def split: prod.splits)

lemma mk_mrow_fields:
  "json_values (mk_mrow X r m1 m2) = json_values r"
  "lot_number (mk_mrow X r m1 m2) = lot_number r"
  "m_number (mk_mrow X r m1 m2) = m_number r"
  "rm_code1 (mk_mrow X r m1 m2) = fst m1" "rm_name1 (mk_mrow X r m1 m2) = snd m1"
  "rm_code2 (mk_mrow X r m1 m2) = fst m2" "rm_name2 (mk_mrow X r m1 m2) = snd m2"
  by (simp_all add: mk_mrow_def Let_def)

text \<open>Every candidate row of a document of the run reaches the exact matching.\<close>

lemma exact_rows_row:
  assumes "doc \<in> set docs" and "explode_document X doc = Inr es" and "(doc, lot, m) \<in> set es"
    and "exact_rows X order_df docs = Inr rows2"
    and "m1 \<in> set (lookup_order order_df (lot_number_clean lot))"
    and "m2 \<in> set (lookup_order order_df (m_number_clean m))"
  shows "mk_mrow X (extracted_df4_row X (doc, lot, m)) m1 m2 \<in> set rows2"
proof -
  from exact_rows_D[OF assms(4)] obtain rows1 where
    rows1: "extracted_df3 X docs = Inr rows1"
      "merged_extracted_df2 X order_df (extracted_df4 X rows1) = Inr rows2" by blast
  from rows1(1) have "collect (explode_document X) docs = Inr rows1"
    by (simp add: extracted_df3_def)
  from collect_Inr_mem[OF this assms(1)] assms(2) have "set es \<subseteq> set rows1" by auto
  with assms(3) have "(doc, lot, m) \<in> set rows1" by blast
  then have c: "extracted_df4_row X (doc, lot, m) \<in> set (extracted_df4 X rows1)"
    unfolding extracted_df4_def by (simp only: set_map) (rule imageI)
  let ?c = "extracted_df4_row X (doc, lot, m)"
  have eq: "rows2 = concat (map (merge_order X order_df) (extracted_df4 X rows1))"
    using rows1(2) by (simp add: merged_extracted_df2_def split: if_splits)
  have "mk_mrow X ?c m1 m2 \<in> set (merge_order X order_df ?c)"
    unfolding merge_order_def using assms(5,6) by (auto simp: extracted_df4_row_fields)
  then show ?thesis unfolding eq using c by auto
qed

lemma explode_document_shape:
  assumes "explode_document X doc = Inr es" and "x \<in> set es"
  shows "\<exists>lot m. x = (doc, lot, m)"
  using assms by (auto simp: explode_document_def split: sum.splits)

lemma document_reaches_matching:
  assumes "doc \<in> set docs" and "explode_document X doc = Inr es" and "es \<noteq> []"
    and "matched_rows X order_df rm_df docs = Inr rows"
  shows "\<exists>r \<in> set rows. filename r = doc_filename doc"
proof -
  from matched_rows_D[OF assms(4)] obtain rows2 where
    rows2: "exact_rows X order_df docs = Inr rows2" "merged_extracted_df3 X rm_df rows2 = Inr rows"
    by blast
  from assms(3) obtain x where x: "x \<in> set es" by (meson last_in_set)
  from explode_document_shape[OF assms(2) x] obtain lot m where "x = (doc, lot, m)" by blast
  with x have lm: "(doc, lot, m) \<in> set es" by simp
  obtain m1 where m1: "m1 \<in> set (lookup_order order_df (lot_number_clean lot))"
    using lookup_order_nonempty[of order_df "lot_number_clean lot"] by (meson last_in_set)
  obtain m2 where m2: "m2 \<in> set (lookup_order order_df (m_number_clean m))"
    using lookup_order_nonempty[of order_df "m_number_clean m"] by (meson last_in_set)
  let ?r2 = "mk_mrow X (extracted_df4_row X (doc, lot, m)) m1 m2"
  have r2: "?r2 \<in> set rows2"
    by (rule exact_rows_row[OF assms(1,2) lm rows2(1) m1 m2])
  have f2: "filename ?r2 = doc_filename doc"
    by (simp only: mk_mrow_sims(3) extracted_df4_row_fields(1))
  from merged_extracted_df3_image[OF rows2(2) r2] obtain r3 where
    r3: "r3 \<in> set rows" "r3 \<in> set (merge_unmatched (unmatched_file_merged X rm_df rows2) ?r2)"
    by blast
  have "filename r3 = doc_filename doc"
    using merge_unmatched_fields(1)[OF r3(2)] f2 by simp
  with r3(1) show ?thesis by blast
qed

text \<open>
  Claim C8, as stated, at \<open>doc_a\<close>: its envelope yields two lot numbers and its file
  name one M-number, and it has two candidate rows, not three. In the run that holds this
  document alone its lot number is in the registry, no file is unmatched, and the run ends
  with \<^verbatim>\<open>KeyError\<close> at line 509 before any winner is chosen.
\<close>

theorem two_lots_one_m_number_counterexample:
  "lot_numbers ex_ext doc_a = Inr [Some ''M11111'', Some ''M22222''] \<and>
   m_numbers doc_a = [Some ''M12345''] \<and>
   explode_document ex_ext doc_a =
     Inr [(doc_a, Some ''M11111'', Some ''M12345''), (doc_a, Some ''M22222'', Some ''M12345'')] \<and>
   length (projr (explode_document ex_ext doc_a)) = 2 \<and>
   length (projr (explode_document ex_ext doc_a)) \<noteq> 3 \<and>
   matched_rows ex_ext ex_order_df ex_catalog [doc_a] = Inl KeyError"
  by code_simp

text \<open>
  Claim C8, amended. A document of the run whose envelope yields two lot-number candidates
  (the non-null elements of its lot list) and whose file name yields one M-number (after
  repeated M-numbers are merged) has 2 x 1 = 2 candidate rows, one per lot number. In
  every run that reaches the ranking, exactly one of the matched rows of its file name has
  rank 1; that row is kept with the greatest similarity of the file, and no row of that
  file name has a greater similarity than it.
\<close>

theorem two_lots_one_m_number_give_two_rows:
  assumes "doc \<in> set docs"
    and "lot_numbers X doc = Inr lots"
    and "concat (map (\<lambda>v. case v of None \<Rightarrow> [] | Some s \<Rightarrow> [s]) lots) = [a, b]"
    and "dedupe (findall_M (strip_non_word (doc_filename_clean doc))) = [m]"
  shows "explode_document X doc =
           Inr [(doc, clean_and_extract_lot a, Some m), (doc, clean_and_extract_lot b, Some m)] \<and>
         length (projr (explode_document X doc)) = 2 \<and>
         (\<forall>rows. matched_rows X order_df rm_df docs = Inr rows \<longrightarrow>
            (\<exists>i < length rows.
               filename (rows ! i) = doc_filename doc \<and> rank1 rows i = 1 \<and>
               (rows ! i, name_similarity (rows ! i)) \<in> set (merged_extracted_df4 rows) \<and>
               (\<forall>j < length rows.
                  filename (rows ! j) = doc_filename doc \<and> rank1 rows j = 1 \<longrightarrow> j = i) \<and>
               (\<forall>q \<in> set rows.
                  filename q = doc_filename doc \<longrightarrow> name_similarity q \<le> name_similarity (rows ! i))))"
proof -
  have ex: "explode_document X doc =
      Inr [(doc, clean_and_extract_lot a, Some m), (doc, clean_and_extract_lot b, Some m)]"
    by (rule explode_document_two_lots[OF assms(2,3,4)])
  then have len: "length (projr (explode_document X doc)) = 2" by simp
  have win: "\<exists>i < length rows.
               filename (rows ! i) = doc_filename doc \<and> rank1 rows i = 1 \<and>
               (rows ! i, name_similarity (rows ! i)) \<in> set (merged_extracted_df4 rows) \<and>
               (\<forall>j < length rows.
                  filename (rows ! j) = doc_filename doc \<and> rank1 rows j = 1 \<longrightarrow> j = i) \<and>
               (\<forall>q \<in> set rows.
                  filename q = doc_filename doc \<longrightarrow> name_similarity q \<le> name_similarity (rows ! i))"
    if run: "matched_rows X order_df rm_df docs = Inr rows" for rows
  proof -
    have ne: "[(doc, clean_and_extract_lot a, Some m), (doc, clean_and_extract_lot b, Some m)] \<noteq> []"
      by simp
    from document_reaches_matching[OF assms(1) ex ne run] obtain r where
      r: "r \<in> set rows" "filename r = doc_filename doc" by blast
    from rank1_exists[OF r(1)] obtain i where
      i: "i < length rows" "filename (rows ! i) = doc_filename doc" "rank1 rows i = 1"
      using r(2) by auto
    have fm: "name_similarity (rows ! i) = file_max rows (filename (rows ! i))"
      by (rule rank1_is_file_max[OF i(1,3)])
    have "i \<in> set (filter (\<lambda>i. rank1 rows i = 1) [0 ..< length rows])"
      using i(1,3) by simp
    then have "(rows ! i, file_max rows (filename (rows ! i))) \<in> set (merged_extracted_df4 rows)"
      unfolding merged_extracted_df4_def by (simp only: set_map) (rule imageI)
    then have kept: "(rows ! i, name_similarity (rows ! i)) \<in> set (merged_extracted_df4 rows)"
      using fm by simp
    have uniq: "\<forall>j < length rows. filename (rows ! j) = doc_filename doc \<and> rank1 rows j = 1 \<longrightarrow> j = i"
    proof (intro allI impI)
      fix j assume j: "j < length rows" "filename (rows ! j) = doc_filename doc \<and> rank1 rows j = 1"
      then have "filename (rows ! j) = filename (rows ! i)" using i(2) by simp
      then show "j = i" using rank1_unique[OF j(1) i(1)] j(2) i(3) by blast
    qed
    have great: "\<forall>q \<in> set rows. filename q = doc_filename doc \<longrightarrow>
        name_similarity q \<le> name_similarity (rows ! i)"
    proof (intro ballI impI)
      fix q assume "q \<in> set rows" "filename q = doc_filename doc"
      then show "name_similarity q \<le> name_similarity (rows ! i)"
        using rank1_is_greatest[OF i(1,3), of q] i(2) by simp
    qed
    from i kept uniq great show ?thesis by blast
  qed
  from ex len win show ?thesis by blast
qed

theorem two_lots_one_m_number_give_two_rows_witness:
  "doc_a \<in> set ex_docs \<and>
   lot_numbers ex_ext doc_a = Inr [Some ''M11111'', Some ''M22222''] \<and>
   concat (map (\<lambda>v. case v of None \<Rightarrow> [] | Some s \<Rightarrow> [s]) [Some ''M11111'', Some ''M22222''])
     = [''M11111'', ''M22222''] \<and>
   dedupe (findall_M (strip_non_word (doc_filename_clean doc_a))) = [''M12345''] \<and>
   matched_rows ex_ext ex_order_df ex_catalog ex_docs
     = Inr (projr (matched_rows ex_ext ex_order_df ex_catalog ex_docs)) \<and>
   length (projr (explode_document ex_ext doc_a)) = 2 \<and>
   (\<exists>i < length (projr (matched_rows ex_ext ex_order_df ex_catalog ex_docs)).
      filename (projr (matched_rows ex_ext ex_order_df ex_catalog ex_docs) ! i) = doc_filename doc_a \<and>
      rank1 (projr (matched_rows ex_ext ex_order_df ex_catalog ex_docs)) i = 1)"
proof -
  have h1: "doc_a \<in> set ex_docs" by (simp add: ex_docs_def)
  have h2: "lot_numbers ex_ext doc_a = Inr [Some ''M11111'', Some ''M22222'']" by code_simp
  have h3: "concat (map (\<lambda>v. case v of None \<Rightarrow> [] | Some s \<Rightarrow> [s]) [Some ''M11111'', Some ''M22222''])
     = [''M11111'', ''M22222'']" by simp
  have h4: "dedupe (findall_M (strip_non_word (doc_filename_clean doc_a))) = [''M12345'']"
    by code_simp
  note t = two_lots_one_m_number_give_two_rows[OF h1 h2 h3 h4, of ex_order_df ex_catalog]
  from t have len: "length (projr (explode_document ex_ext doc_a)) = 2" by blast
  from t example_matched_rows have
    "\<exists>i < length (projr (matched_rows ex_ext ex_order_df ex_catalog ex_docs)).
      filename (projr (matched_rows ex_ext ex_order_df ex_catalog ex_docs) ! i) = doc_filename doc_a \<and>
      rank1 (projr (matched_rows ex_ext ex_order_df ex_catalog ex_docs)) i = 1"
    by blast
  with h1 h2 h3 h4 len example_matched_rows show ?thesis by blast
qed

end
